theory Spec2Isabelle
  imports Complex_Main
begin

section \<open>Conventions of the embedding\<close>

text \<open>
  The two Python modules \<^verbatim>\<open>data_analyzer.py\<close> (class \<^verbatim>\<open>DanceMoveSampler\<close>) and
  \<^verbatim>\<open>real_time_pose_scorer.py\<close> (class \<^verbatim>\<open>RealTimePoseScorer\<close>) are embedded
  function by function. Python floats are read as real numbers; a value that may be
  \<^verbatim>\<open>NaN\<close> or infinite is given a datatype of its own where the code depends on it.
  Where a result is compared with an exact value (the weights stored by the sequencer,
  the index of the matched reference pose) every operation on floats rounds its result
  to the nearest double, as \<open>round_double\<close> below does; the arguments of such a function
  stand for doubles.
  Every \<^verbatim>\<open>raise\<close> of the source is a value \<open>Inl e\<close>.
\<close>

datatype py_error =
    ZeroDivisionError
  | IndexError
  | ValueError
  | UnboundLocalError

text \<open>Python's \<^verbatim>\<open>int(x)\<close> on a float truncates towards zero.\<close>

definition py_int :: "real \<Rightarrow> int" where
  "py_int x = (if 0 \<le> x then \<lfloor>x\<rfloor> else \<lceil>x\<rceil>)"

text \<open>Python's \<^verbatim>\<open>min(xs)\<close> and \<^verbatim>\<open>max(xs)\<close> on a non-empty list scan it from the left.\<close>

fun py_min :: "real list \<Rightarrow> real" where
  "py_min [] = 0"
| "py_min (x # xs) = fold (\<lambda>y m. if y < m then y else m) xs x"

fun py_max :: "real list \<Rightarrow> real" where
  "py_max [] = 0"
| "py_max (x # xs) = fold (\<lambda>y m. if y > m then y else m) xs x"

subsection \<open>Rounding to a double\<close>

text \<open>
  An IEEE double is an integer of at most 53 bits times a power of two whose exponent is
  at least \<open>-1074\<close>. The result of an operation is the exact result rounded to the
  nearest such number, a tie going to the even integer: \<open>round_half_even\<close> rounds to an
  integer, \<open>ulp_exponent x\<close> is the exponent of the spacing of the doubles around \<open>x\<close>,
  and \<open>round_double x\<close> is the double nearest to \<open>x\<close> when the exponent is not bounded
  above. A result whose rounded magnitude exceeds \<open>max_double\<close> is an infinity in Python:
  \<open>overflows\<close> tells when.
\<close>

definition round_half_even :: "real \<Rightarrow> int" where
  "round_half_even q =
     (let f = \<lfloor>q\<rfloor>; r = q - of_int f
      in if r < 1 / 2 then f
         else if r > 1 / 2 then f + 1
         else if even f then f else f + 1)"

definition ulp_exponent :: "real \<Rightarrow> int" where
  "ulp_exponent x = max (- 1074) (\<lfloor>log 2 \<bar>x\<bar>\<rfloor> - 52)"

definition round_double :: "real \<Rightarrow> real" where
  "round_double x =
     (if x = 0 then 0
      else of_int (round_half_even (x / 2 powi ulp_exponent x)) * 2 powi ulp_exponent x)"

definition max_double :: real where
  "max_double = (2 ^ 53 - 1) * 2 ^ 971"

definition overflows :: "real \<Rightarrow> bool" where
  "overflows x = (max_double < \<bar>round_double x\<bar>)"

section \<open>The sequencer: \<^verbatim>\<open>DanceMoveSampler\<close>\<close>

datatype DanceIntensity = LOW | MEDIUM | HIGH

record DanceMoveSampler =
  amplitude_weight :: real
  bpm_weight :: real
  segment_duration :: real
  transition_smoothing :: real

text \<open>
  \<^verbatim>\<open>DanceMoveSampler.__init__\<close>: the four arguments are stored, then both weights are
  divided by their sum, in double arithmetic: the sum is rounded, and so is each
  quotient. A zero sum raises \<^verbatim>\<open>ZeroDivisionError\<close>; a sum that overflows is an
  infinity, and a weight divided by it is zero. A quotient of a double by the non-zero
  sum of two doubles does not overflow.
\<close>

definition DanceMoveSampler_init ::
  "real \<Rightarrow> real \<Rightarrow> real \<Rightarrow> real \<Rightarrow> py_error + DanceMoveSampler" where
  "DanceMoveSampler_init amplitude_weight0 bpm_weight0 segment_duration0 transition_smoothing0 =
     (let total_weight = round_double (amplitude_weight0 + bpm_weight0)
      in if total_weight = 0 then Inl ZeroDivisionError
         else if overflows (amplitude_weight0 + bpm_weight0)
         then Inr \<lparr> amplitude_weight = 0,
                    bpm_weight = 0,
                    segment_duration = segment_duration0,
                    transition_smoothing = transition_smoothing0 \<rparr>
         else Inr \<lparr> amplitude_weight = round_double (amplitude_weight0 / total_weight),
                    bpm_weight = round_double (bpm_weight0 / total_weight),
                    segment_duration = segment_duration0,
                    transition_smoothing = transition_smoothing0 \<rparr>)"

text \<open>\<^verbatim>\<open>normalize_features\<close>: min-max over the amplitudes, fixed affine map and clamp for BPM.\<close>

definition normalize_features :: "real list \<Rightarrow> real list \<Rightarrow> real list \<times> real list" where
  "normalize_features amplitudes bpms =
     (let norm_amplitudes =
            (if amplitudes \<noteq> [] then
               (let min_amp = py_min amplitudes; max_amp = py_max amplitudes
                in if max_amp > min_amp
                   then map (\<lambda>a. (a - min_amp) / (max_amp - min_amp)) amplitudes
                   else replicate (length amplitudes) (1 / 2))
             else []);
          norm_bpms = map (\<lambda>bpm. max 0 (min 1 ((bpm - 60) / (200 - 60)))) bpms
      in (norm_amplitudes, norm_bpms))"

text \<open>\<^verbatim>\<open>calculate_intensity_score\<close>: the weighted sum.\<close>

definition calculate_intensity_score :: "DanceMoveSampler \<Rightarrow> real \<Rightarrow> real \<Rightarrow> real" where
  "calculate_intensity_score self norm_amplitude norm_bpm =
     amplitude_weight self * norm_amplitude + bpm_weight self * norm_bpm"

text \<open>
  The classification of a segment's score inside \<^verbatim>\<open>sample_dance_moves_for_song\<close>
  (the \<^verbatim>\<open>if score <= low_threshold / elif score >= high_threshold / else\<close> chain).
\<close>

definition classify_intensity :: "real \<Rightarrow> real \<Rightarrow> real \<Rightarrow> DanceIntensity" where
  "classify_intensity score low_threshold high_threshold =
     (if score \<le> low_threshold then LOW
      else if score \<ge> high_threshold then HIGH
      else MEDIUM)"

subsection \<open>Keypoint arrays and the collaborators\<close>

text \<open>
  A keypoint file holds a numpy array of floats, some of them \<^verbatim>\<open>NaN\<close>. An array is its
  shape and its entries in row-major order; \<open>nd_index a i\<close> is \<^verbatim>\<open>a[i]\<close> for \<open>0 \<le> i\<close>,
  which raises \<^verbatim>\<open>IndexError\<close> out of range.
\<close>

datatype fl = Num real | NaN

datatype ndarray = NdArray (shape: "nat list") (data: "fl list")

definition has_nan :: "ndarray \<Rightarrow> bool" where
  \<comment> \<open>\<^verbatim>\<open>np.isnan(a).any()\<close>\<close>
  "has_nan a = (NaN \<in> set (data a))"

definition nd_index :: "ndarray \<Rightarrow> nat \<Rightarrow> py_error + ndarray" where
  "nd_index a i =
     (case shape a of
        [] \<Rightarrow> Inl IndexError
      | n # rest \<Rightarrow>
          if i < n
          then Inr (NdArray rest (take (prod_list rest) (drop (i * prod_list rest) (data a))))
          else Inl IndexError)"

text \<open>
  What the run reads from outside: the intensity catalogue, the directory listing, the
  keypoint files, the decoded audio (sample count and sample rate, \<open>None\<close> when
  \<^verbatim>\<open>load_audio\<close> raises), the two audio analyses of a window (\<open>None\<close> when the analysis
  raises) and the stream of random draws consumed by \<^verbatim>\<open>random.choice\<close> and
  \<^verbatim>\<open>random.randint\<close>.

  The run opens the keypoint file anew for every check and every output frame.
  \<open>keypoint_files\<close> is the array stored under a file name (\<open>None\<close> for a missing file or
  an unknown format) and \<open>read_ok t\<close> tells whether the \<open>t\<close>-th read of the run succeeds;
  \<^verbatim>\<open>load_keypoint_file\<close> catches every exception and returns \<^verbatim>\<open>None\<close>.
\<close>

record environment =
  intensity_mappings :: "DanceIntensity list"
  available_dances :: "string list"
  keypoint_files :: "string \<Rightarrow> ndarray option"
  read_ok :: "nat \<Rightarrow> bool"
  load_audio :: "(nat \<times> nat) option"
  analyze_amplitude :: "real \<Rightarrow> real \<Rightarrow> real option"
  analyze_bpm :: "real \<Rightarrow> real \<Rightarrow> real option"
  random :: "nat \<Rightarrow> nat"

definition load_keypoint_file :: "environment \<Rightarrow> nat \<Rightarrow> string \<Rightarrow> ndarray option" where
  "load_keypoint_file env t filename = (if read_ok env t then keypoint_files env filename else None)"

text \<open>\<^verbatim>\<open>random.choice(xs)\<close> with the draw \<open>r\<close>; an empty sequence raises \<^verbatim>\<open>IndexError\<close>.\<close>

definition random_choice :: "nat \<Rightarrow> 'a list \<Rightarrow> py_error + 'a" where
  "random_choice r xs = (if xs = [] then Inl IndexError else Inr (xs ! (r mod length xs)))"

text \<open>\<^verbatim>\<open>get_dances_by_intensity\<close>: the files whose catalogue position carries the label.\<close>

definition get_dances_by_intensity ::
  "DanceIntensity \<Rightarrow> string list \<Rightarrow> DanceIntensity list \<Rightarrow> string list" where
  "get_dances_by_intensity intensity dances mappings =
     map (\<lambda>(i, dance_intensity). dances ! i)
       (filter (\<lambda>(i, dance_intensity). dance_intensity = intensity \<and> i < length dances)
          (zip [0 ..< length mappings] mappings))"

text \<open>
  \<^verbatim>\<open>get_dance_duration\<close> goes through \<^verbatim>\<open>load_dance_sequence\<close>; only the shape of the
  array decides its result. \<open>normalize_keypoints_shape\<close> is the shape returned by
  \<^verbatim>\<open>normalize_keypoints_format\<close>, \<open>mediapipe_frames\<close> the number of frames of
  \<^verbatim>\<open>convert_to_mediapipe_format\<close>, which unpacks a three-dimensional shape and copies
  coordinate columns into two columns. Every exception gives the default of 5 seconds;
  the frame rate of a \<^verbatim>\<open>DanceSequence\<close> is 30.
\<close>

definition normalize_keypoints_shape :: "nat list \<Rightarrow> py_error + nat list" where
  "normalize_keypoints_shape s =
     (if length s = 4 \<and> s ! 0 = 0 then Inl IndexError
      else
        (let s1 = (if length s = 4 then tl s else s)
         in if length s1 = 2 then Inr [1, s1 ! 0, s1 ! 1]
            else if length s1 = 3 then
              (if s1 ! 2 > 2 then Inr [s1 ! 0, s1 ! 1, 2] else Inr s1)
            else if length s1 = 1 then
              (if s1 ! 0 mod 34 = 0 then Inr [s1 ! 0 div 34, 17, 2]
               else if s1 ! 0 mod 50 = 0 then Inr [s1 ! 0 div 50, 25, 2]
               else Inr s1)
            else Inr s1))"

definition mediapipe_frames :: "nat list \<Rightarrow> py_error + nat" where
  "mediapipe_frames s =
     (if length s \<noteq> 3 then Inl ValueError
      else if s ! 2 = 1 \<or> s ! 2 = 2 then Inr (s ! 0)
      else Inl ValueError)"

definition get_dance_duration :: "environment \<Rightarrow> nat \<Rightarrow> string \<Rightarrow> real" where
  "get_dance_duration env t dance_filename =
     (case load_keypoint_file env t dance_filename of
        None \<Rightarrow> 5
      | Some raw_keypoints \<Rightarrow>
          (case normalize_keypoints_shape (shape raw_keypoints) of
             Inl e \<Rightarrow> 5
           | Inr s \<Rightarrow>
               (case mediapipe_frames s of
                  Inl e \<Rightarrow> 5
                | Inr num_frames \<Rightarrow> real num_frames / 30)))"

subsection \<open>The local variables of \<^verbatim>\<open>sample_dance_moves_for_song\<close>\<close>

text \<open>
  One output record of the run (the dictionary appended to \<^verbatim>\<open>pose_sequence\<close>).
\<close>

record ChoreographyFrame =
  frame_number :: nat
  time :: real
  dance_file :: "string option"
  dance_frame :: int
  intensity :: string
  pose_data :: "ndarray option"

text \<open>
  The locals that live across loop iterations. \<open>seg_duration\<close> is the local
  \<^verbatim>\<open>segment_duration\<close> and \<open>candidate_pose\<close> the local of that name: both are unbound
  (\<open>None\<close>) until first assigned and keep their last value afterwards. \<open>selected_dance\<close>
  is the candidate picked last in the retry loop, \<open>rng_pos\<close> the number of random draws
  consumed so far, \<open>io_pos\<close> the number of file reads made so far,
  \<open>next_frame_number\<close> the local \<^verbatim>\<open>frame_number\<close>.
\<close>

record locals =
  pose_sequence :: "ChoreographyFrame list"
  current_dance_file :: "string option"
  current_dance_duration :: real
  current_dance_elapsed :: real
  current_intensity :: "DanceIntensity option"
  next_frame_number :: nat
  seg_duration :: "real option"
  candidate_pose :: "ndarray option"
  selected_dance :: "string option"
  rng_pos :: nat
  io_pos :: nat

definition initial_locals :: locals where
  "initial_locals =
     \<lparr> pose_sequence = [], current_dance_file = None, current_dance_duration = 0,
       current_dance_elapsed = 0, current_intensity = None, next_frame_number = 0,
       seg_duration = None, candidate_pose = None, selected_dance = None, rng_pos = 0,
       io_pos = 0 \<rparr>"

definition intensity_value :: "DanceIntensity \<Rightarrow> string" where
  "intensity_value i = (case i of LOW \<Rightarrow> ''low'' | MEDIUM \<Rightarrow> ''medium'' | HIGH \<Rightarrow> ''high'')"

text \<open>
  The frame count that the run reads off a loaded array: axis 1 of a four-dimensional
  array, axis 0 of a three-dimensional one. \<open>num_frames_or_one\<close> is the variant with the
  \<^verbatim>\<open>else: num_frames = 1\<close> branch.
\<close>

definition num_frames_of :: "ndarray \<Rightarrow> nat option" where
  "num_frames_of raw_keypoints =
     (if length (shape raw_keypoints) = 4 then Some (shape raw_keypoints ! 1)
      else if length (shape raw_keypoints) = 3 then Some (shape raw_keypoints ! 0)
      else None)"

definition num_frames_or_one :: "ndarray \<Rightarrow> nat" where
  "num_frames_or_one raw_keypoints =
     (case num_frames_of raw_keypoints of Some n \<Rightarrow> n | None \<Rightarrow> 1)"

text \<open>
  \<^verbatim>\<open>raw_keypoints[0, k]\<close> for four dimensions, \<^verbatim>\<open>raw_keypoints[k]\<close> otherwise.
\<close>

definition frame_at :: "ndarray \<Rightarrow> nat \<Rightarrow> py_error + ndarray" where
  "frame_at raw_keypoints k =
     (if length (shape raw_keypoints) = 4
      then (case nd_index raw_keypoints 0 of
              Inl e \<Rightarrow> Inl e
            | Inr camera \<Rightarrow> nd_index camera k)
      else nd_index raw_keypoints k)"

subsection \<open>Keeping or replacing the active clip\<close>

text \<open>
  The decision \<^verbatim>\<open>need_new_dance\<close> at the head of a segment. The last branch reloads the
  file (one read); its \<^verbatim>\<open>try\<close> swallows every exception, among them the unbound
  \<^verbatim>\<open>segment_duration\<close>. The result is the flag and the number of reads made.
\<close>

definition need_new_dance ::
  "environment \<Rightarrow> real \<Rightarrow> DanceIntensity \<Rightarrow> locals \<Rightarrow> bool \<times> nat" where
  "need_new_dance env frame_rate intensity0 st =
     (case current_dance_file st of
        None \<Rightarrow> (True, io_pos st)
      | Some f \<Rightarrow>
          if current_dance_elapsed st \<ge> current_dance_duration st then (True, io_pos st)
          else if current_intensity st \<noteq> Some intensity0 \<and> current_dance_elapsed st > 2
          then (True, io_pos st)
          else if f = [] then (False, io_pos st)
          else
            (case load_keypoint_file env (io_pos st) f of
               None \<Rightarrow> (False, Suc (io_pos st))
             | Some raw_keypoints \<Rightarrow>
                 (case seg_duration st of
                    None \<Rightarrow> (False, Suc (io_pos st))
                  | Some segment_duration0 \<Rightarrow>
                      (let num_frames = num_frames_or_one raw_keypoints;
                           frames_needed = py_int (segment_duration0 * frame_rate);
                           current_frame_index = py_int (current_dance_elapsed st * frame_rate)
                       in (current_frame_index + frames_needed \<ge> int num_frames,
                           Suc (io_pos st))))))"

text \<open>
  The \<^verbatim>\<open>if/elif\<close> chain that picks a clip for an intensity: the pool of that label when
  it is not empty, else the whole listing. One random draw \<open>r\<close> is consumed.
\<close>

definition choose_dance ::
  "environment \<Rightarrow> DanceIntensity \<Rightarrow> nat \<Rightarrow> py_error + string" where
  "choose_dance env intensity0 r =
     (let high_dances = get_dances_by_intensity HIGH (available_dances env) (intensity_mappings env);
          medium_dances = get_dances_by_intensity MEDIUM (available_dances env) (intensity_mappings env);
          low_dances = get_dances_by_intensity LOW (available_dances env) (intensity_mappings env)
      in if intensity0 = HIGH \<and> high_dances \<noteq> [] then random_choice r high_dances
         else if intensity0 = MEDIUM \<and> medium_dances \<noteq> [] then random_choice r medium_dances
         else if intensity0 = LOW \<and> low_dances \<noteq> [] then random_choice r low_dances
         else random_choice r (available_dances env))"

text \<open>
  The inner loop that samples frames at random indices and counts those with a
  \<^verbatim>\<open>NaN\<close>: \<open>k\<close> iterations left, \<open>pos\<close> the next draw. An \<^verbatim>\<open>IndexError\<close> leaves the loop
  with the draws consumed so far.
\<close>

fun count_nan_samples ::
  "environment \<Rightarrow> ndarray \<Rightarrow> nat \<Rightarrow> nat \<Rightarrow> nat \<Rightarrow> nat \<Rightarrow> (py_error + nat) \<times> nat" where
  "count_nan_samples env raw_keypoints num_frames 0 pos nan_count = (Inr nan_count, pos)"
| "count_nan_samples env raw_keypoints num_frames (Suc k) pos nan_count =
     (let frame_idx = random env pos mod num_frames
      in case frame_at raw_keypoints frame_idx of
           Inl e \<Rightarrow> (Inl e, Suc pos)
         | Inr sample_pose \<Rightarrow>
             count_nan_samples env raw_keypoints num_frames k (Suc pos)
               (if has_nan sample_pose then Suc nan_count else nan_count))"

text \<open>
  The quality check of one candidate, reading the file at read \<open>t\<close>: \<open>True\<close> when fewer
  than 30 percent of the sampled frames hold a \<^verbatim>\<open>NaN\<close>. A file that does not load, an
  array that has neither three nor four dimensions, and every exception of the
  \<^verbatim>\<open>try\<close> block (the division by zero samples among them) reject the candidate.
\<close>

definition dance_passes_filter :: "environment \<Rightarrow> nat \<Rightarrow> string \<Rightarrow> nat \<Rightarrow> bool \<times> nat" where
  "dance_passes_filter env t dance pos =
     (case load_keypoint_file env t dance of
        None \<Rightarrow> (False, pos)
      | Some raw_keypoints \<Rightarrow>
          (case num_frames_of raw_keypoints of
             None \<Rightarrow> (False, pos)
           | Some num_frames \<Rightarrow>
               (let sample_frames = min 10 num_frames
                in case count_nan_samples env raw_keypoints num_frames sample_frames pos 0 of
                     (Inl e, pos') \<Rightarrow> (False, pos')
                   | (Inr nan_count, pos') \<Rightarrow>
                       if sample_frames = 0 then (False, pos')
                       else (real nan_count / real sample_frames < 3 / 10, pos'))))"

text \<open>
  The retry loop \<^verbatim>\<open>for retry in range(max_retries)\<close> with \<open>k\<close> attempts left. The choice
  of a candidate is outside the inner \<^verbatim>\<open>try\<close>: its \<^verbatim>\<open>IndexError\<close> leaves the whole run.
  An accepted candidate becomes the active clip and the loop is left.
\<close>

fun retry_loop ::
  "environment \<Rightarrow> DanceIntensity \<Rightarrow> nat \<Rightarrow> locals \<Rightarrow> py_error + locals" where
  "retry_loop env intensity0 0 st = Inr st"
| "retry_loop env intensity0 (Suc k) st =
     (case choose_dance env intensity0 (random env (rng_pos st)) of
        Inl e \<Rightarrow> Inl e
      | Inr dance \<Rightarrow>
          (case dance_passes_filter env (io_pos st) dance (Suc (rng_pos st)) of
             (True, pos') \<Rightarrow>
               Inr (st\<lparr> selected_dance := Some dance,
                        rng_pos := pos',
                        io_pos := Suc (Suc (io_pos st)),
                        current_dance_file := Some dance,
                        current_dance_duration := get_dance_duration env (Suc (io_pos st)) dance,
                        current_dance_elapsed := 0,
                        current_intensity := Some intensity0 \<rparr>)
           | (False, pos') \<Rightarrow>
               retry_loop env intensity0 k
                 (st\<lparr> selected_dance := Some dance, rng_pos := pos', io_pos := Suc (io_pos st) \<rparr>)))"

text \<open>
  The block under \<^verbatim>\<open>if need_new_dance\<close>: clear the active clip, run ten attempts, and
  when none was accepted choose once more without the check.
\<close>

definition max_retries :: nat where
  "max_retries = 10"

definition select_new_dance ::
  "environment \<Rightarrow> DanceIntensity \<Rightarrow> locals \<Rightarrow> py_error + locals" where
  "select_new_dance env intensity0 st =
     (case retry_loop env intensity0 max_retries (st\<lparr> current_dance_file := None \<rparr>) of
        Inl e \<Rightarrow> Inl e
      | Inr st1 \<Rightarrow>
          (case current_dance_file st1 of
             Some f \<Rightarrow> Inr st1
           | None \<Rightarrow>
               (case choose_dance env intensity0 (random env (rng_pos st1)) of
                  Inl e \<Rightarrow> Inl e
                | Inr dance \<Rightarrow>
                    Inr (st1\<lparr> rng_pos := Suc (rng_pos st1),
                              io_pos := Suc (io_pos st1),
                              current_dance_file := Some dance,
                              current_dance_duration := get_dance_duration env (io_pos st1) dance,
                              current_dance_elapsed := 0,
                              current_intensity := Some intensity0 \<rparr>))))"

subsection \<open>Resolving the pose of one output frame\<close>

text \<open>
  The pose synthesised when no clean frame is near: 17 joints of 3 coordinates, zero but
  for nose, eyes, shoulders and hips.
\<close>

definition default_pose :: ndarray where
  "default_pose =
     NdArray [17, 3]
       (map Num
          ([500, 200, 9 / 10] @ [490, 210, 9 / 10] @ [510, 210, 9 / 10] @
           [0, 0, 0] @ [0, 0, 0] @
           [480, 300, 9 / 10] @ [520, 300, 9 / 10] @
           [0, 0, 0] @ [0, 0, 0] @ [0, 0, 0] @ [0, 0, 0] @
           [480, 500, 9 / 10] @ [520, 500, 9 / 10] @
           [0, 0, 0] @ [0, 0, 0] @ [0, 0, 0] @ [0, 0, 0]))"

text \<open>
  The search for a clean frame nearby: the loop over the two directions inside the loop
  over the offsets \<^verbatim>\<open>range(1, min(50, num_frames))\<close>, each left at the first frame
  without a \<^verbatim>\<open>NaN\<close>.
\<close>

fun search_directions ::
  "ndarray \<Rightarrow> int \<Rightarrow> nat \<Rightarrow> int \<Rightarrow> int list \<Rightarrow> py_error + ndarray option" where
  "search_directions raw_keypoints dance_frame0 num_frames offset [] = Inr None"
| "search_directions raw_keypoints dance_frame0 num_frames offset (direction # ds) =
     (let try_frame = (dance_frame0 + offset * direction) mod int num_frames
      in case frame_at raw_keypoints (nat try_frame) of
           Inl e \<Rightarrow> Inl e
         | Inr try_pose \<Rightarrow>
             if \<not> has_nan try_pose then Inr (Some try_pose)
             else search_directions raw_keypoints dance_frame0 num_frames offset ds)"

fun search_offsets ::
  "ndarray \<Rightarrow> int \<Rightarrow> nat \<Rightarrow> int list \<Rightarrow> py_error + ndarray option" where
  "search_offsets raw_keypoints dance_frame0 num_frames [] = Inr None"
| "search_offsets raw_keypoints dance_frame0 num_frames (offset # os) =
     (case search_directions raw_keypoints dance_frame0 num_frames offset [1, - 1] of
        Inl e \<Rightarrow> Inl e
      | Inr (Some try_pose) \<Rightarrow> Inr (Some try_pose)
      | Inr None \<Rightarrow> search_offsets raw_keypoints dance_frame0 num_frames os)"

definition find_clean_frame :: "ndarray \<Rightarrow> int \<Rightarrow> nat \<Rightarrow> py_error + ndarray option" where
  "find_clean_frame raw_keypoints dance_frame0 num_frames =
     search_offsets raw_keypoints dance_frame0 num_frames (map int [1 ..< min 50 num_frames])"

text \<open>
  The body of \<^verbatim>\<open>if current_dance_file:\<close> for one frame, given what the read of the file
  returned. The result is \<^verbatim>\<open>pose_data\<close>, the value of \<^verbatim>\<open>dance_frame\<close> after the block and
  the local \<^verbatim>\<open>candidate_pose\<close>. The index is wrapped as soon as \<^verbatim>\<open>num_frames\<close> is known
  and positive; an exception after that point gives \<^verbatim>\<open>pose_data = None\<close> and keeps the
  wrapped index. An array that has neither three nor four dimensions leaves
  \<^verbatim>\<open>candidate_pose\<close> as it was, unbound or stale.
\<close>

definition resolve_loaded ::
  "ndarray \<Rightarrow> int \<Rightarrow> ndarray option \<Rightarrow> ndarray option \<times> int \<times> ndarray option" where
  "resolve_loaded raw_keypoints dance_frame0 cand =
     (let num_frames = num_frames_or_one raw_keypoints
      in if num_frames > 0 then
           (let dance_frame1 = dance_frame0 mod int num_frames
            in case (if num_frames_of raw_keypoints \<noteq> None
                     then (case frame_at raw_keypoints (nat dance_frame1) of
                             Inl e \<Rightarrow> Inl e
                           | Inr p \<Rightarrow> Inr (Some p))
                     else Inr cand) of
                 Inl e \<Rightarrow> (None, dance_frame1, cand)
               | Inr None \<Rightarrow> (None, dance_frame1, None)
               | Inr (Some candidate) \<Rightarrow>
                   if \<not> has_nan candidate then (Some candidate, dance_frame1, Some candidate)
                   else
                     (case find_clean_frame raw_keypoints dance_frame1 num_frames of
                        Inl e \<Rightarrow> (None, dance_frame1, Some candidate)
                      | Inr (Some try_pose) \<Rightarrow> (Some try_pose, dance_frame1, Some candidate)
                      | Inr None \<Rightarrow> (Some default_pose, dance_frame1, Some candidate)))
         else (None, dance_frame0, cand))"

text \<open>
  Pose resolution for one frame: nothing is read when no file is active (\<^verbatim>\<open>None\<close> or the
  empty name); a file that does not load leaves \<^verbatim>\<open>dance_frame\<close> as computed. The last
  component is the number of reads made.
\<close>

definition resolve_pose ::
  "environment \<Rightarrow> nat \<Rightarrow> string option \<Rightarrow> int \<Rightarrow> ndarray option
     \<Rightarrow> (ndarray option \<times> int \<times> ndarray option) \<times> nat" where
  "resolve_pose env t file dance_frame0 cand =
     (case file of
        None \<Rightarrow> ((None, dance_frame0, cand), t)
      | Some f \<Rightarrow>
          if f = [] then ((None, dance_frame0, cand), t)
          else
            (case load_keypoint_file env t f of
               None \<Rightarrow> ((None, dance_frame0, cand), Suc t)
             | Some raw_keypoints \<Rightarrow> (resolve_loaded raw_keypoints dance_frame0 cand, Suc t)))"

subsection \<open>The frames of a segment and the whole run\<close>

text \<open>
  One iteration of \<^verbatim>\<open>for frame_idx in range(total_frames)\<close>: the frame time, the raw clip
  index \<^verbatim>\<open>int(current_dance_elapsed * frame_rate) + frame_idx\<close>, the pose, and the record
  appended to \<^verbatim>\<open>pose_sequence\<close>.
\<close>

definition emit_frame ::
  "environment \<Rightarrow> real \<Rightarrow> real \<Rightarrow> real \<Rightarrow> DanceIntensity \<Rightarrow> nat \<Rightarrow> locals \<Rightarrow> locals" where
  "emit_frame env frame_rate frame_delay start_time intensity0 frame_idx st =
     (let frame_time0 = start_time + real frame_idx / frame_rate;
          frame_time = (if frame_delay > 0 then frame_time0 + frame_delay else frame_time0);
          dance_frame0 = py_int (current_dance_elapsed st * frame_rate) + int frame_idx
      in case resolve_pose env (io_pos st) (current_dance_file st) dance_frame0 (candidate_pose st) of
           ((pose_data0, dance_frame1, cand), t) \<Rightarrow>
             st\<lparr> pose_sequence := pose_sequence st @
                    [\<lparr> frame_number = next_frame_number st,
                       time = frame_time,
                       dance_file = current_dance_file st,
                       dance_frame = dance_frame1,
                       intensity = intensity_value intensity0,
                       pose_data = pose_data0 \<rparr>],
                 next_frame_number := Suc (next_frame_number st),
                 candidate_pose := cand,
                 io_pos := t \<rparr>)"

fun segment_frames ::
  "environment \<Rightarrow> real \<Rightarrow> real \<Rightarrow> real \<Rightarrow> DanceIntensity \<Rightarrow> nat list \<Rightarrow> locals \<Rightarrow> locals" where
  "segment_frames env frame_rate frame_delay start_time intensity0 [] st = st"
| "segment_frames env frame_rate frame_delay start_time intensity0 (frame_idx # rest) st =
     segment_frames env frame_rate frame_delay start_time intensity0 rest
       (emit_frame env frame_rate frame_delay start_time intensity0 frame_idx st)"

text \<open>
  One iteration of the loop over \<^verbatim>\<open>segments_data\<close>, for the segment from \<open>start_time\<close> to
  \<open>end_time\<close> with its normalised amplitude and BPM: classify, keep or replace the clip,
  emit \<^verbatim>\<open>int(segment_duration * frame_rate)\<close> frames, advance the elapsed time.
\<close>

definition process_segment ::
  "DanceMoveSampler \<Rightarrow> environment \<Rightarrow> real \<Rightarrow> real \<Rightarrow> real \<Rightarrow> real
     \<Rightarrow> (real \<times> real) \<times> (real \<times> real) \<Rightarrow> locals \<Rightarrow> py_error + locals" where
  "process_segment self env low_threshold high_threshold frame_rate frame_delay seg st =
     (case seg of ((start_time, end_time), (norm_amplitude, norm_bpm)) \<Rightarrow>
        (let score = calculate_intensity_score self norm_amplitude norm_bpm;
             intensity0 = classify_intensity score low_threshold high_threshold
         in case need_new_dance env frame_rate intensity0 st of
              (need, t) \<Rightarrow>
                (case (if need then select_new_dance env intensity0 (st\<lparr> io_pos := t \<rparr>)
                       else Inr (st\<lparr> io_pos := t \<rparr>)) of
                   Inl e \<Rightarrow> Inl e
                 | Inr st1 \<Rightarrow>
                     (let segment_duration0 = end_time - start_time;
                          total_frames = py_int (segment_duration0 * frame_rate);
                          st2 = segment_frames env frame_rate frame_delay start_time intensity0
                                  [0 ..< nat total_frames]
                                  (st1\<lparr> seg_duration := Some segment_duration0 \<rparr>)
                      in Inr (st2\<lparr> current_dance_elapsed :=
                                      current_dance_elapsed st2 + segment_duration0 \<rparr>)))))"

fun run_segments ::
  "DanceMoveSampler \<Rightarrow> environment \<Rightarrow> real \<Rightarrow> real \<Rightarrow> real \<Rightarrow> real
     \<Rightarrow> ((real \<times> real) \<times> (real \<times> real)) list \<Rightarrow> locals \<Rightarrow> py_error + locals" where
  "run_segments self env low_threshold high_threshold frame_rate frame_delay [] st = Inr st"
| "run_segments self env low_threshold high_threshold frame_rate frame_delay (seg # segs) st =
     (case process_segment self env low_threshold high_threshold frame_rate frame_delay seg st of
        Inl e \<Rightarrow> Inl e
      | Inr st' \<Rightarrow>
          run_segments self env low_threshold high_threshold frame_rate frame_delay segs st')"

text \<open>
  The windows \<^verbatim>\<open>np.arange(0, song_duration, 5.0)\<close>, each with
  \<^verbatim>\<open>end_time = min(start_time + 5.0, song_duration)\<close>, and the first loop, which analyses
  every window; an analysis that raises ends the run.
\<close>

definition song_windows :: "real \<Rightarrow> (real \<times> real) list" where
  "song_windows song_duration =
     map (\<lambda>i. (5 * real i, min (5 * real i + 5) song_duration))
       [0 ..< nat \<lceil>song_duration / 5\<rceil>]"

fun collect_features ::
  "environment \<Rightarrow> (real \<times> real) list \<Rightarrow> (real list \<times> real list) option" where
  "collect_features env [] = Some ([], [])"
| "collect_features env ((start_time, end_time) # ws) =
     (case analyze_amplitude env start_time end_time of
        None \<Rightarrow> None
      | Some amplitude \<Rightarrow>
          (case analyze_bpm env start_time end_time of
             None \<Rightarrow> None
           | Some bpm \<Rightarrow>
               (case collect_features env ws of
                  None \<Rightarrow> None
                | Some (amplitudes, bpms) \<Rightarrow> Some (amplitude # amplitudes, bpm # bpms))))"

text \<open>
  \<^verbatim>\<open>sample_dance_moves_for_song\<close>. An empty catalogue returns the empty list before
  anything else; every exception inside the \<^verbatim>\<open>try\<close> returns the empty list as well.
  \<open>song_duration\<close> is \<open>None\<close> for the default argument, in which case the duration is
  \<^verbatim>\<open>len(audio) / sr\<close>.
\<close>

definition sample_dance_moves_for_song ::
  "DanceMoveSampler \<Rightarrow> environment \<Rightarrow> real \<Rightarrow> real \<Rightarrow> real \<Rightarrow> real \<Rightarrow> real option
     \<Rightarrow> ChoreographyFrame list" where
  "sample_dance_moves_for_song self env low_threshold high_threshold frame_rate frame_delay
       song_duration =
     (if intensity_mappings env = [] then []
      else
        (case load_audio env of
           None \<Rightarrow> []
         | Some (audio_len, sr) \<Rightarrow>
             (case (case song_duration of
                      Some d \<Rightarrow> Inr d
                    | None \<Rightarrow> if sr = 0 then Inl ZeroDivisionError
                               else Inr (real audio_len / real sr)) of
                Inl e \<Rightarrow> []
              | Inr d \<Rightarrow>
                  (case collect_features env (song_windows d) of
                     None \<Rightarrow> []
                   | Some (amplitudes, bpms) \<Rightarrow>
                       (case normalize_features amplitudes bpms of
                          (norm_amplitudes, norm_bpms) \<Rightarrow>
                            (case run_segments self env low_threshold high_threshold frame_rate
                                    frame_delay
                                    (zip (song_windows d) (zip norm_amplitudes norm_bpms))
                                    initial_locals of
                               Inl e \<Rightarrow> []
                             | Inr st \<Rightarrow> pose_sequence st))))))"

subsection \<open>The sequencer in the words of the specification\<close>

text \<open>
  The candidate pool of a selection: the clips tagged with the target intensity, or the
  full catalogue when there is none.
\<close>

definition dance_pool :: "environment \<Rightarrow> DanceIntensity \<Rightarrow> string list" where
  "dance_pool env intensity0 =
     (let tagged = get_dances_by_intensity intensity0 (available_dances env) (intensity_mappings env)
      in if tagged \<noteq> [] then tagged else available_dances env)"

text \<open>
  The attempts of one selection: each attempt draws a candidate from the pool with the
  next random number and checks it by reading its file, attempt after attempt reading at
  the next read of the run; the check uses the random numbers that follow the draw. For
  each of \<open>k\<close> attempts the list holds the candidate, the verdict of the check and the
  position of the next random number. An attempt is listed whether or not an earlier one
  passed.
\<close>

fun attempt_list ::
  "environment \<Rightarrow> DanceIntensity \<Rightarrow> nat \<Rightarrow> nat \<Rightarrow> nat \<Rightarrow> (string \<times> bool \<times> nat) list" where
  "attempt_list env intensity0 0 pos t = []"
| "attempt_list env intensity0 (Suc k) pos t =
     (let candidate =
            dance_pool env intensity0 ! (random env pos mod length (dance_pool env intensity0));
          verdict = dance_passes_filter env t candidate (Suc pos)
      in (candidate, fst verdict, snd verdict)
           # attempt_list env intensity0 k (snd verdict) (Suc t))"

text \<open>
  The outward search: the candidate indices for the offsets 1 to \<open>last_offset\<close>, at each
  offset the \<open>+\<close> direction before the \<open>-\<close> direction, wrapped modulo the frame count;
  and the first candidate whose frame is free of \<^verbatim>\<open>NaN\<close>.
\<close>

definition search_candidates :: "int \<Rightarrow> nat \<Rightarrow> nat \<Rightarrow> int list" where
  "search_candidates dance_frame0 num_frames last_offset =
     concat (map (\<lambda>offset. [(dance_frame0 + int offset) mod int num_frames,
                              (dance_frame0 - int offset) mod int num_frames])
               [1 ..< Suc last_offset])"

fun first_clean :: "ndarray \<Rightarrow> int list \<Rightarrow> ndarray option" where
  "first_clean raw_keypoints [] = None"
| "first_clean raw_keypoints (k # ks) =
     (case frame_at raw_keypoints (nat k) of
        Inl e \<Rightarrow> first_clean raw_keypoints ks
      | Inr p \<Rightarrow> if has_nan p then first_clean raw_keypoints ks else Some p)"

subsection \<open>Fixtures\<close>

text \<open>
  A clip of 100 frames of one joint and one coordinate, in which frame 50 alone is free
  of \<^verbatim>\<open>NaN\<close>.
\<close>

definition sparse_clip :: ndarray where
  "sparse_clip = NdArray [100, 1, 1] (replicate 50 NaN @ [Num 1] @ replicate 49 NaN)"

text \<open>
  A catalogue of two low-intensity clips of one frame each, both \<^verbatim>\<open>NaN\<close>; every random
  draw is 0 but draw number 20, which is 1.
\<close>

definition nan_env :: environment where
  "nan_env =
     \<lparr> intensity_mappings = [LOW, LOW],
       available_dances = [''a.pkl'', ''b.pkl''],
       keypoint_files = (\<lambda>f. if f = ''a.pkl'' \<or> f = ''b.pkl''
                               then Some (NdArray [1, 1, 1] [NaN]) else None),
       read_ok = (\<lambda>t. True),
       load_audio = Some (5, 1),
       analyze_amplitude = (\<lambda>s e. Some 1),
       analyze_bpm = (\<lambda>s e. Some 120),
       random = (\<lambda>i. if i = 20 then 1 else 0) \<rparr>"

text \<open>
  A catalogue of one medium-intensity clip of three clean frames; the first five reads
  of the run succeed and every later read fails.
\<close>

definition flaky_clip :: ndarray where
  "flaky_clip = NdArray [3, 1, 1] [Num 1, Num 2, Num 3]"

definition flaky_env :: environment where
  "flaky_env =
     \<lparr> intensity_mappings = [MEDIUM],
       available_dances = [''a.pkl''],
       keypoint_files = (\<lambda>f. if f = ''a.pkl'' then Some flaky_clip else None),
       read_ok = (\<lambda>t. t < 5),
       load_audio = Some (1, 1),
       analyze_amplitude = (\<lambda>s e. Some 1),
       analyze_bpm = (\<lambda>s e. Some 120),
       random = (\<lambda>i. 0) \<rparr>"

text \<open>The same catalogue when every read succeeds.\<close>

definition steady_env :: environment where
  "steady_env = flaky_env\<lparr> read_ok := (\<lambda>t. True) \<rparr>"

text \<open>
  A sampler with the default segment duration and smoothing, and the default weights 0.6
  and 0.4 read as reals.
\<close>

definition default_sampler :: DanceMoveSampler where
  "default_sampler =
     \<lparr> amplitude_weight = 3 / 5, bpm_weight = 2 / 5, segment_duration = 5,
       transition_smoothing = 1 / 10 \<rparr>"

section \<open>The scorer: \<^verbatim>\<open>RealTimePoseScorer\<close>\<close>

subsection \<open>Poses, distances and the session\<close>

text \<open>
  A pose handed to the scorer is a one-dimensional array or a two-dimensional array of
  joints by coordinates; inside the scorer every pose is two-dimensional. A
  two-dimensional array is its number of columns and the list of its rows, every row of
  that length: the number of columns is kept because an array without rows still has a
  shape \<open>(0, k)\<close>, which the elementwise operations of numpy look at. A distance may be
  infinite and a frame score may be \<^verbatim>\<open>NaN\<close>, so both are \<open>xfloat\<close> values.
\<close>

type_synonym matrix = "real list list"

datatype pose_array = PoseArray (ncols: nat) (joints: matrix)

datatype pose_input = Flat "real list" | Joints pose_array

datatype xfloat = Fin real | PosInf | NegInf | NotANumber

record PoseScore =
  spatial_score :: xfloat
  timing_score :: real
  rhythm_score :: real
  frame_score :: xfloat
  timestamp :: real

record RealTimePoseScorer =
  spatial_weight :: real
  timing_weight :: real
  rhythm_weight :: real
  alpha :: real
  smoothing_factor :: real
  max_history :: nat
  user_poses :: "pose_array list"
  user_timestamps :: "real list"
  reference_poses :: "pose_array list"
  reference_timestamps :: "real list"
  pose_scores :: "PoseScore list"
  pose_history :: "pose_array list"
  start_time :: "real option"
  current_ref_index :: nat

text \<open>
  \<^verbatim>\<open>RealTimePoseScorer.__init__\<close>: every argument is stored as given; the buffers are
  empty deques. \<^verbatim>\<open>deque(maxlen=max_history)\<close> raises \<^verbatim>\<open>ValueError\<close> for a negative bound.
\<close>

definition RealTimePoseScorer_init ::
  "real \<Rightarrow> real \<Rightarrow> real \<Rightarrow> real \<Rightarrow> real \<Rightarrow> int \<Rightarrow> py_error + RealTimePoseScorer" where
  "RealTimePoseScorer_init spatial_weight0 timing_weight0 rhythm_weight0 alpha0 smoothing_factor0
       max_history0 =
     (if max_history0 < 0 then Inl ValueError
      else Inr \<lparr> spatial_weight = spatial_weight0,
                 timing_weight = timing_weight0,
                 rhythm_weight = rhythm_weight0,
                 alpha = alpha0,
                 smoothing_factor = smoothing_factor0,
                 max_history = nat max_history0,
                 user_poses = [],
                 user_timestamps = [],
                 reference_poses = [],
                 reference_timestamps = [],
                 pose_scores = [],
                 pose_history = [],
                 start_time = None,
                 current_ref_index = 0 \<rparr>)"

text \<open>\<^verbatim>\<open>deque.append\<close> on a deque bounded by \<open>maxlen\<close>: a full deque drops its oldest entry.\<close>

definition deque_append :: "nat \<Rightarrow> 'a list \<Rightarrow> 'a \<Rightarrow> 'a list" where
  "deque_append maxlen xs x =
     (if maxlen = 0 then []
      else if length xs \<ge> maxlen then tl xs @ [x]
      else xs @ [x])"

text \<open>
  \<^verbatim>\<open>load_reference_dance\<close>: the poses are stored as given; without timestamps pose
  number \<open>i\<close> gets the double \<^verbatim>\<open>i / 60.0\<close>.
\<close>

definition load_reference_dance ::
  "RealTimePoseScorer \<Rightarrow> pose_array list \<Rightarrow> real list option \<Rightarrow> RealTimePoseScorer" where
  "load_reference_dance self poses timestamps =
     self\<lparr> reference_poses := poses,
           reference_timestamps :=
             (case timestamps of
                None \<Rightarrow> map (\<lambda>i. round_double (real i / 60)) [0 ..< length poses]
              | Some ts \<Rightarrow> ts) \<rparr>"

text \<open>\<^verbatim>\<open>reshape(-1, 2)\<close> of a flat array of even length.\<close>

fun pairs :: "real list \<Rightarrow> matrix" where
  "pairs (x # y # rest) = [x, y] # pairs rest"
| "pairs rest = []"

definition column :: "matrix \<Rightarrow> nat \<Rightarrow> real list" where
  "column m j = map (\<lambda>row. row ! j) m"

text \<open>
  \<^verbatim>\<open>normalize_pose\<close>. A flat pose is reshaped to pairs, padded with a zero when its
  length is odd. \<^verbatim>\<open>pose[:, 1]\<close> raises \<^verbatim>\<open>IndexError\<close> on fewer than two columns.
\<close>

definition normalize_pose :: "pose_input \<Rightarrow> py_error + pose_array" where
  "normalize_pose pose0 =
     (let pose = (case pose0 of
                    Flat xs \<Rightarrow> PoseArray 2 (if even (length xs) then pairs xs else pairs (xs @ [0]))
                  | Joints m \<Rightarrow> m)
      in if length (joints pose) = 0 then Inr pose
         else if ncols pose < 2 then Inl IndexError
         else
           (let valid_mask = map (\<lambda>row. \<not> (row ! 0 = 0 \<and> row ! 1 = 0)) (joints pose)
            in if True \<notin> set valid_mask then Inr pose
               else
                 (let valid_points = map fst (filter snd (zip (joints pose) valid_mask));
                      min_coords = map (\<lambda>j. py_min (column valid_points j)) [0 ..< ncols pose];
                      max_coords = map (\<lambda>j. py_max (column valid_points j)) [0 ..< ncols pose];
                      height0 = max_coords ! 1 - min_coords ! 1;
                      height = (if height0 = 0 then 1 else height0);
                      center = map2 (\<lambda>lo hi. (lo + hi) / 2) min_coords max_coords
                  in Inr (PoseArray (ncols pose)
                            (map (\<lambda>row. map2 (\<lambda>x c. (x - c) / height) row center) (joints pose))))))"

text \<open>
  The normalisation in the words of the specification, for comparison with
  \<open>normalize_pose\<close>: joints at exactly \<open>(0, 0)\<close> are invalid, the bounding box is taken
  over the valid joints, the pose is translated by the centre of the box and divided by
  the height of the box after \<open>guard\<close> has been applied to it; a pose without a valid
  joint is returned unchanged.
\<close>

definition bbox_normalize :: "(real \<Rightarrow> real) \<Rightarrow> matrix \<Rightarrow> matrix" where
  "bbox_normalize guard m =
     (let valid = filter (\<lambda>row. \<not> (row ! 0 = 0 \<and> row ! 1 = 0)) m
      in if valid = [] then m
         else
           (let lo = (\<lambda>j. Min ((\<lambda>row. row ! j) ` set valid));
                hi = (\<lambda>j. Max ((\<lambda>row. row ! j) ` set valid));
                divisor = guard (hi 1 - lo 1)
            in map (\<lambda>row. map (\<lambda>j. (row ! j - (lo j + hi j) / 2) / divisor) [0 ..< length row]) m))"

text \<open>
  Elementwise arithmetic of numpy on two arrays: along each axis the extents are equal,
  or one of them is 1 and is stretched to the other; anything else raises
  \<^verbatim>\<open>ValueError\<close>. The columns are compared also when there are no rows.
\<close>

definition broadcast1 ::
  "(real \<Rightarrow> real \<Rightarrow> real) \<Rightarrow> real list \<Rightarrow> real list \<Rightarrow> py_error + real list" where
  "broadcast1 f u v =
     (if length u = length v then Inr (map2 f u v)
      else if length u = 1 then Inr (map (f (hd u)) v)
      else if length v = 1 then Inr (map (\<lambda>x. f x (hd v)) u)
      else Inl ValueError)"

definition broadcast2 ::
  "(real \<Rightarrow> real \<Rightarrow> real) \<Rightarrow> pose_array \<Rightarrow> pose_array \<Rightarrow> py_error + pose_array" where
  "broadcast2 f a b =
     (let ra = length (joints a); rb = length (joints b); ca = ncols a; cb = ncols b
      in if (ra = rb \<or> ra = 1 \<or> rb = 1) \<and> (ca = cb \<or> ca = 1 \<or> cb = 1)
         then Inr (PoseArray (if ca = 1 then cb else ca)
                     (map (\<lambda>i. map (\<lambda>j. f (joints a ! (if ra = 1 then 0 else i) ! (if ca = 1 then 0 else j))
                                          (joints b ! (if rb = 1 then 0 else i) ! (if cb = 1 then 0 else j)))
                                 [0 ..< (if ca = 1 then cb else ca)])
                        [0 ..< (if ra = 1 then rb else ra)]))
         else Inl ValueError)"

definition scale :: "real \<Rightarrow> pose_array \<Rightarrow> pose_array" where
  "scale c m = PoseArray (ncols m) (map (map (\<lambda>x. c * x)) (joints m))"

text \<open>
  \<^verbatim>\<open>smooth_pose\<close>: the first pose is stored and returned as it is; later ones are mixed
  with the last entry of \<^verbatim>\<open>pose_history\<close>, a deque of at most five poses.
\<close>

definition smooth_pose ::
  "RealTimePoseScorer \<Rightarrow> pose_array \<Rightarrow> py_error + (pose_array \<times> RealTimePoseScorer)" where
  "smooth_pose self pose =
     (if length (pose_history self) = 0
      then Inr (pose, self\<lparr> pose_history := deque_append 5 (pose_history self) pose \<rparr>)
      else
        (let prev_pose = last (pose_history self)
         in case broadcast2 (+) (scale (smoothing_factor self) pose)
                   (scale (1 - smoothing_factor self) prev_pose) of
              Inl e \<Rightarrow> Inl e
            | Inr smoothed \<Rightarrow>
                Inr (smoothed, self\<lparr> pose_history := deque_append 5 (pose_history self) smoothed \<rparr>)))"

text \<open>
  \<^verbatim>\<open>compute_pose_distance\<close>: rows 5 to 16 when the first pose has at least 17 rows, else
  the rows both poses have; the selected rows are flattened and compared by the
  Euclidean norm of their difference.
\<close>

definition take_rows :: "matrix \<Rightarrow> nat list \<Rightarrow> py_error + matrix" where
  "take_rows m idx = (if \<forall>i \<in> set idx. i < length m then Inr (map (\<lambda>i. m ! i) idx) else Inl IndexError)"

definition euclidean :: "real list \<Rightarrow> real list \<Rightarrow> py_error + real" where
  "euclidean u v =
     (case broadcast1 (-) u v of
        Inl e \<Rightarrow> Inl e
      | Inr d \<Rightarrow> Inr (sqrt (sum_list (map (\<lambda>x. x * x) d))))"

definition compute_pose_distance :: "pose_array \<Rightarrow> pose_array \<Rightarrow> py_error + real" where
  "compute_pose_distance pose1 pose2 =
     (let upper_body_indices =
            (if length (joints pose1) \<ge> 17 then [5 ..< 17]
             else [0 ..< min (length (joints pose1)) (length (joints pose2))])
      in case take_rows (joints pose1) upper_body_indices of
           Inl e \<Rightarrow> Inl e
         | Inr pose1_upper \<Rightarrow>
             (case take_rows (joints pose2) upper_body_indices of
                Inl e \<Rightarrow> Inl e
              | Inr pose2_upper \<Rightarrow> euclidean (concat pose1_upper) (concat pose2_upper)))"

subsection \<open>Reference alignment\<close>

text \<open>
  Python's \<^verbatim>\<open>%\<close> on floats calls the C function \<^verbatim>\<open>fmod\<close>, whose result is exact and has
  the sign of the dividend, and adds the divisor to a non-zero result whose sign differs
  from the divisor's; that addition rounds. A zero divisor raises
  \<^verbatim>\<open>ZeroDivisionError\<close>, which the caller models.
\<close>

definition c_fmod :: "real \<Rightarrow> real \<Rightarrow> real" where
  "c_fmod a b = a - b * of_int (py_int (a / b))"

definition py_fmod :: "real \<Rightarrow> real \<Rightarrow> real" where
  "py_fmod a b =
     (let m = c_fmod a b
      in if m \<noteq> 0 \<and> (b < 0) \<noteq> (m < 0) then round_double (m + b) else m)"

text \<open>Python's \<^verbatim>\<open>xs[i]\<close>: a negative index counts from the end.\<close>

definition py_nth :: "'a list \<Rightarrow> int \<Rightarrow> py_error + 'a" where
  "py_nth xs i =
     (if 0 \<le> i \<and> i < int (length xs) then Inr (xs ! nat i)
      else if i < 0 \<and> - int (length xs) \<le> i then Inr (xs ! nat (int (length xs) + i))
      else Inl IndexError)"

text \<open>
  \<^verbatim>\<open>find_best_reference_match\<close>. An empty reference returns index 0 and an infinite
  distance without touching the session. Otherwise the first call fixes
  \<^verbatim>\<open>start_time\<close>, and the index follows from the elapsed time taken modulo the last
  reference timestamp (1.0 when there are no timestamps), every operation rounding to a
  double. An elapsed time that overflows is an infinity: its remainder is \<^verbatim>\<open>NaN\<close>, which
  \<^verbatim>\<open>int\<close> refuses with \<^verbatim>\<open>ValueError\<close>. The result is the index, the distance and the
  session.
\<close>

definition ref_duration_of :: "RealTimePoseScorer \<Rightarrow> real" where
  "ref_duration_of self =
     (if reference_timestamps self \<noteq> [] then last (reference_timestamps self) else 1)"

definition find_best_reference_match ::
  "RealTimePoseScorer \<Rightarrow> pose_array \<Rightarrow> real
     \<Rightarrow> py_error + ((int \<times> xfloat) \<times> RealTimePoseScorer)" where
  "find_best_reference_match self user_pose timestamp0 =
     (if length (reference_poses self) = 0 then Inr ((0, PosInf), self)
      else
        (let start = (case start_time self of None \<Rightarrow> timestamp0 | Some s \<Rightarrow> s);
             self1 = self\<lparr> start_time := Some start \<rparr>;
             elapsed_time = round_double (timestamp0 - start);
             ref_duration = ref_duration_of self1
         in if ref_duration = 0 then Inl ZeroDivisionError
            else if overflows (timestamp0 - start) then Inl ValueError
            else
              (let progress = round_double (py_fmod elapsed_time ref_duration / ref_duration);
                   ref_index0 =
                     py_int (round_double (progress * real (length (reference_poses self1))));
                   ref_index = min ref_index0 (int (length (reference_poses self1)) - 1)
               in case py_nth (reference_poses self1) ref_index of
                    Inl e \<Rightarrow> Inl e
                  | Inr ref_pose \<Rightarrow>
                      (case compute_pose_distance user_pose ref_pose of
                         Inl e \<Rightarrow> Inl e
                       | Inr distance \<Rightarrow> Inr ((ref_index, Fin distance), self1)))))"

text \<open>The session made by \<^verbatim>\<open>RealTimePoseScorer()\<close> with the default arguments.\<close>

definition default_scorer :: RealTimePoseScorer where
  "default_scorer =
     \<lparr> spatial_weight = 2 / 5, timing_weight = 3 / 10, rhythm_weight = 3 / 10, alpha = 2,
       smoothing_factor = 3 / 10, max_history = 100, user_poses = [], user_timestamps = [],
       reference_poses = [], reference_timestamps = [], pose_scores = [], pose_history = [],
       start_time = None, current_ref_index = 0 \<rparr>"

subsection \<open>Scores\<close>

text \<open>
  \<^verbatim>\<open>compute_frame_score\<close> is \<^verbatim>\<open>np.clip(np.exp(-alpha * distance), 0, 1)\<close> in IEEE
  arithmetic: a zero factor times infinity is \<^verbatim>\<open>NaN\<close>, \<^verbatim>\<open>exp(-inf) = 0\<close>, and \<^verbatim>\<open>NaN\<close>
  passes through \<^verbatim>\<open>clip\<close>.
\<close>

definition xmul :: "real \<Rightarrow> xfloat \<Rightarrow> xfloat" where
  "xmul c x =
     (case x of
        Fin r \<Rightarrow> Fin (c * r)
      | PosInf \<Rightarrow> if c > 0 then PosInf else if c < 0 then NegInf else NotANumber
      | NegInf \<Rightarrow> if c > 0 then NegInf else if c < 0 then PosInf else NotANumber
      | NotANumber \<Rightarrow> NotANumber)"

definition xexp :: "xfloat \<Rightarrow> xfloat" where
  "xexp x =
     (case x of
        Fin r \<Rightarrow> Fin (exp r)
      | PosInf \<Rightarrow> PosInf
      | NegInf \<Rightarrow> Fin 0
      | NotANumber \<Rightarrow> NotANumber)"

definition xclip :: "xfloat \<Rightarrow> real \<Rightarrow> real \<Rightarrow> xfloat" where
  "xclip x lo hi =
     (case x of
        Fin r \<Rightarrow> Fin (min (max r lo) hi)
      | PosInf \<Rightarrow> Fin hi
      | NegInf \<Rightarrow> Fin lo
      | NotANumber \<Rightarrow> NotANumber)"

definition compute_frame_score :: "RealTimePoseScorer \<Rightarrow> xfloat \<Rightarrow> xfloat" where
  "compute_frame_score self distance = xclip (xexp (xmul (- alpha self) distance)) 0 1"

text \<open>\<^verbatim>\<open>np.mean\<close> and \<^verbatim>\<open>np.std\<close> (the population standard deviation) of a non-empty list.\<close>

definition mean :: "real list \<Rightarrow> real" where
  "mean xs = sum_list xs / real (length xs)"

definition std :: "real list \<Rightarrow> real" where
  "std xs = sqrt (mean (map (\<lambda>x. (x - mean xs) * (x - mean xs)) xs))"

definition diffs :: "real list \<Rightarrow> real list" where
  \<comment> \<open>\<^verbatim>\<open>[xs[i] - xs[i-1] for i in range(1, len(xs))]\<close>\<close>
  "diffs xs = map (\<lambda>i. xs ! i - xs ! (i - 1)) [1 ..< length xs]"

definition compute_timing_score :: "RealTimePoseScorer \<Rightarrow> real" where
  "compute_timing_score self =
     (if length (user_timestamps self) < 2 then 1 / 2
      else
        (let time_diffs = diffs (user_timestamps self)
         in if time_diffs \<noteq> [] then
              (let expected_diff = 1 / 30;
                   timing_consistency = 1 - min (std time_diffs / expected_diff) 1
               in max timing_consistency 0)
            else 1 / 2))"

text \<open>
  \<^verbatim>\<open>np.linalg.norm(a - b)\<close> of two poses, and the velocities between consecutive poses
  \<^verbatim>\<open>ps[i] - ps[i-1]\<close> for \<open>i\<close> from 1 below \<open>n\<close>.
\<close>

definition pose_velocity :: "pose_array \<Rightarrow> pose_array \<Rightarrow> py_error + real" where
  "pose_velocity a b =
     (case broadcast2 (-) a b of
        Inl e \<Rightarrow> Inl e
      | Inr d \<Rightarrow> Inr (sqrt (sum_list (map (\<lambda>x. x * x) (concat (joints d))))))"

fun velocities :: "pose_array list \<Rightarrow> nat list \<Rightarrow> py_error + real list" where
  "velocities ps [] = Inr []"
| "velocities ps (i # rest) =
     (case pose_velocity (ps ! i) (ps ! (i - 1)) of
        Inl e \<Rightarrow> Inl e
      | Inr v \<Rightarrow> (case velocities ps rest of Inl e \<Rightarrow> Inl e | Inr vs \<Rightarrow> Inr (v # vs)))"

text \<open>
  \<^verbatim>\<open>np.corrcoef(x, y)[0, 1]\<close> for two lists of one length whose deviations are not
  zero: the covariance over the product of the deviations, clipped to \<open>[-1, 1]\<close>.
\<close>

definition corrcoef :: "real list \<Rightarrow> real list \<Rightarrow> real" where
  "corrcoef xs ys =
     (let dx = map (\<lambda>x. x - mean xs) xs;
          dy = map (\<lambda>y. y - mean ys) ys;
          r = sum_list (map2 (*) dx dy)
                / sqrt (sum_list (map (\<lambda>x. x * x) dx) * sum_list (map (\<lambda>y. y * y) dy))
      in min (max r (- 1)) 1)"

definition compute_rhythm_score :: "RealTimePoseScorer \<Rightarrow> py_error + real" where
  "compute_rhythm_score self =
     (if length (user_poses self) < 3 then Inr (1 / 2)
      else
        (case velocities (user_poses self) [1 ..< length (user_poses self)] of
           Inl e \<Rightarrow> Inl e
         | Inr user_velocities \<Rightarrow>
             (let fallback =
                    (if length user_velocities \<ge> 2 then
                       (let velocity_consistency =
                              1 - min (std user_velocities / (mean user_velocities + 1 / 1000000)) 1
                        in max velocity_consistency 0)
                     else 1 / 2)
              in if length (reference_poses self) \<ge> 2 then
                   (case velocities (reference_poses self)
                           [1 ..< min (length (reference_poses self)) (length user_velocities + 1)] of
                      Inl e \<Rightarrow> Inl e
                    | Inr ref_velocities \<Rightarrow>
                        if length user_velocities \<ge> 3 \<and> length ref_velocities \<ge> 3 then
                          (let min_len = min (length user_velocities) (length ref_velocities);
                               user_vel = take min_len user_velocities;
                               ref_vel = take min_len ref_velocities
                           in if std user_vel > 0 \<and> std ref_vel > 0
                              then Inr (min (max (corrcoef user_vel ref_vel) 0) 1)
                              else Inr fallback)
                        else Inr fallback)
                 else Inr fallback)))"

text \<open>
  \<^verbatim>\<open>score_pose\<close>: normalise, smooth, record the pose and its timestamp, align, score, and
  append the sample to \<^verbatim>\<open>pose_scores\<close>. \<open>now\<close> is the value of \<^verbatim>\<open>time.time()\<close>, used when
  no timestamp is given. An exception anywhere leaves the call.
\<close>

definition score_pose ::
  "RealTimePoseScorer \<Rightarrow> pose_input \<Rightarrow> real option \<Rightarrow> real
     \<Rightarrow> py_error + (PoseScore \<times> RealTimePoseScorer)" where
  "score_pose self user_pose timestamp_arg now =
     (let timestamp0 = (case timestamp_arg of None \<Rightarrow> now | Some t \<Rightarrow> t)
      in case normalize_pose user_pose of
           Inl e \<Rightarrow> Inl e
         | Inr normalized_pose \<Rightarrow>
             (case smooth_pose self normalized_pose of
                Inl e \<Rightarrow> Inl e
              | Inr (smoothed_pose, self1) \<Rightarrow>
                  (let self2 = self1\<lparr> user_poses :=
                                        deque_append (max_history self1) (user_poses self1) smoothed_pose,
                                      user_timestamps :=
                                        deque_append (max_history self1) (user_timestamps self1) timestamp0 \<rparr>
                   in case find_best_reference_match self2 smoothed_pose timestamp0 of
                        Inl e \<Rightarrow> Inl e
                      | Inr ((ref_index, distance), self3) \<Rightarrow>
                          (let frame_score0 = compute_frame_score self3 distance;
                               spatial_score0 = frame_score0;
                               timing_score0 = compute_timing_score self3
                           in case compute_rhythm_score self3 of
                                Inl e \<Rightarrow> Inl e
                              | Inr rhythm_score0 \<Rightarrow>
                                  (let pose_score = \<lparr> spatial_score = spatial_score0,
                                                      timing_score = timing_score0,
                                                      rhythm_score = rhythm_score0,
                                                      frame_score = frame_score0,
                                                      timestamp = timestamp0 \<rparr>
                                   in Inr (pose_score,
                                           self3\<lparr> pose_scores :=
                                                    deque_append (max_history self3) (pose_scores self3)
                                                      pose_score \<rparr>))))))"

section \<open>Properties\<close>

subsection \<open>Helper facts on minima and maxima\<close>

lemma py_min_Min: "xs \<noteq> [] \<Longrightarrow> py_min xs = Min (set xs)"
proof (cases xs)
  case Nil then show "xs \<noteq> [] \<Longrightarrow> ?thesis" by simp
next
  case (Cons x ys)
  have "(\<lambda>y m. if y < m then y else m) = (min :: real \<Rightarrow> real \<Rightarrow> real)"
    by (intro ext) (simp add: min_def)
  then show ?thesis using Cons Min.set_eq_fold[of x ys] by simp
qed

lemma py_max_Max: "xs \<noteq> [] \<Longrightarrow> py_max xs = Max (set xs)"
proof (cases xs)
  case Nil then show "xs \<noteq> [] \<Longrightarrow> ?thesis" by simp
next
  case (Cons x ys)
  have "(\<lambda>y m. if y > m then y else m) = (max :: real \<Rightarrow> real \<Rightarrow> real)"
    by (intro ext) (simp add: max_def)
  then show ?thesis using Cons Max.set_eq_fold[of x ys] by simp
qed

lemma all_equal_iff:
  fixes xs :: "real list"
  assumes ne: "xs \<noteq> []"
  shows "(\<not> Max (set xs) > Min (set xs)) \<longleftrightarrow> (\<forall>a\<in>set xs. a = hd xs)"
proof
  assume h: "\<not> Max (set xs) > Min (set xs)"
  have "Min (set xs) \<le> Max (set xs)" using ne by simp
  with h have eq: "Min (set xs) = Max (set xs)" by simp
  have "a = Min (set xs)" if "a \<in> set xs" for a
  proof -
    from that have "Min (set xs) \<le> a" "a \<le> Max (set xs)" by simp_all
    with eq show ?thesis by simp
  qed
  moreover have "hd xs \<in> set xs" using ne by simp
  ultimately show "\<forall>a\<in>set xs. a = hd xs" by metis
next
  assume h: "\<forall>a\<in>set xs. a = hd xs"
  then have "set xs = {hd xs}" using ne by (auto)
  then show "\<not> Max (set xs) > Min (set xs)" by simp
qed

subsection \<open>Rounding to a double\<close>

lemma round_half_even_error: "\<bar>of_int (round_half_even q) - q\<bar> \<le> 1 / 2"
proof -
  have "of_int \<lfloor>q\<rfloor> \<le> q" "q < of_int \<lfloor>q\<rfloor> + 1" by linarith+
  then show ?thesis by (auto simp: round_half_even_def Let_def)
qed

lemma floor_log2_bounds:
  assumes "x \<noteq> 0"
  shows "2 powi \<lfloor>log 2 \<bar>x\<bar>\<rfloor> \<le> \<bar>x\<bar> \<and> \<bar>x\<bar> < 2 powi (\<lfloor>log 2 \<bar>x\<bar>\<rfloor> + 1)"
proof -
  define k where "k = \<lfloor>log 2 \<bar>x\<bar>\<rfloor>"
  have pos: "0 < \<bar>x\<bar>" using assms by simp
  have a: "(2::real) powr real_of_int k = 2 powi k"
    by (rule powr_real_of_int') simp_all
  have "(2::real) powr real_of_int (k + 1) = 2 powi (k + 1)"
    by (rule powr_real_of_int') simp_all
  then have b: "(2::real) powr (real_of_int k + 1) = 2 powi (k + 1)"
    by simp
  have "2 powr real_of_int k \<le> \<bar>x\<bar> \<and> \<bar>x\<bar> < 2 powr (real_of_int k + 1)"
    using floor_log_eq_powr_iff [of "\<bar>x\<bar>" 2 k] pos by (simp add: k_def)
  then show ?thesis using a b by (simp add: k_def)
qed

lemma floor_log2_eq:
  assumes "2 powi k \<le> \<bar>x\<bar>" and "\<bar>x\<bar> < 2 powi (k + 1)"
  shows "\<lfloor>log 2 \<bar>x\<bar>\<rfloor> = k"
proof -
  have pos: "0 < \<bar>x\<bar>" using assms(1) by (smt (verit) zero_less_power_int)
  have a: "(2::real) powr real_of_int k = 2 powi k"
    by (rule powr_real_of_int') simp_all
  have "(2::real) powr real_of_int (k + 1) = 2 powi (k + 1)"
    by (rule powr_real_of_int') simp_all
  then have b: "(2::real) powr (real_of_int k + 1) = 2 powi (k + 1)"
    by simp
  show ?thesis
    using assms pos a b by (subst floor_log_eq_powr_iff) simp_all
qed

lemma round_double_at:
  assumes "2 powi k \<le> \<bar>x\<bar>" and "\<bar>x\<bar> < 2 powi (k + 1)" and "- 1022 \<le> k"
  shows "round_double x = of_int (round_half_even (x / 2 powi (k - 52))) * 2 powi (k - 52)"
proof -
  have "x \<noteq> 0" using assms(1) by (smt (verit) zero_less_power_int)
  moreover have "ulp_exponent x = k - 52"
    using floor_log2_eq [OF assms(1,2)] assms(3) by (simp add: ulp_exponent_def)
  ultimately show ?thesis by (simp add: round_double_def)
qed

lemma round_double_error_ulp:
  "\<bar>round_double x - x\<bar> \<le> 2 powi ulp_exponent x / 2"
proof (cases "x = 0")
  case True
  then show ?thesis by (simp add: round_double_def)
next
  case False
  define p :: real where "p = 2 powi ulp_exponent x"
  have p: "0 < p" by (simp add: p_def)
  have "round_double x - x = (of_int (round_half_even (x / p)) - x / p) * p"
    using False p by (simp add: round_double_def p_def field_simps)
  then have "\<bar>round_double x - x\<bar> = \<bar>of_int (round_half_even (x / p)) - x / p\<bar> * p"
    using p by (simp add: abs_mult)
  also have "\<dots> \<le> (1 / 2) * p"
    using round_half_even_error [of "x / p"] p by (intro mult_right_mono) simp_all
  finally show ?thesis by (simp add: p_def)
qed

lemma round_double_relative:
  assumes "2 powi (- 1022) \<le> \<bar>x\<bar>"
  shows "\<bar>round_double x - x\<bar> \<le> \<bar>x\<bar> / 2 ^ 53"
proof -
  have x0: "x \<noteq> 0" using assms by (smt (verit) zero_less_power_int)
  define k where "k = \<lfloor>log 2 \<bar>x\<bar>\<rfloor>"
  note b = floor_log2_bounds [OF x0, folded k_def]
  have lt: "(2::real) powi (- 1022) < 2 powi (k + 1)" using assms b by linarith
  have "- 1022 < k + 1"
  proof (rule ccontr)
    assume "\<not> - 1022 < k + 1"
    then have "k + 1 \<le> - 1022" by simp
    then have "(2::real) powi (k + 1) \<le> 2 powi (- 1022)"
      by (rule power_int_increasing) simp
    with lt show False by simp
  qed
  then have "max (- 1074) (k - 52) = k - 52" by simp
  then have e: "ulp_exponent x = k - 52" by (simp only: ulp_exponent_def k_def)
  have "(2::real) powi (k - 52) = 2 powi k / 2 ^ 52"
    by (simp add: power_int_diff)
  then have "(2::real) powi (k - 52) / 2 \<le> \<bar>x\<bar> / 2 ^ 53"
    using b by (simp add: field_simps)
  then show ?thesis using round_double_error_ulp [of x] e by simp
qed

lemma round_double_absolute:
  "\<bar>round_double x - x\<bar> \<le> 2 powi (- 1075) + \<bar>x\<bar> / 2 ^ 53"
proof (cases "x = 0")
  case True
  then show ?thesis by (simp add: round_double_def)
next
  case x0: False
  define k where "k = \<lfloor>log 2 \<bar>x\<bar>\<rfloor>"
  note b = floor_log2_bounds [OF x0, folded k_def]
  show ?thesis
  proof (cases "- 1074 \<le> k - 52")
    case True
    then have "max (- 1074) (k - 52) = k - 52" by simp
    then have e: "ulp_exponent x = k - 52" by (simp only: ulp_exponent_def k_def)
    have "(2::real) powi (k - 52) = 2 powi k / 2 ^ 52"
      by (simp add: power_int_diff)
    then have "(2::real) powi (k - 52) / 2 \<le> \<bar>x\<bar> / 2 ^ 53"
      using b by (simp add: field_simps)
    moreover have "\<bar>round_double x - x\<bar> \<le> 2 powi (k - 52) / 2"
      using round_double_error_ulp [of x] e by simp
    ultimately have "\<bar>round_double x - x\<bar> \<le> \<bar>x\<bar> / 2 ^ 53" by (rule order_trans [rotated])
    moreover have "0 \<le> (2::real) powi (- 1075)" by (rule zero_le_power_int) simp
    ultimately show ?thesis by (rule add_increasing [rotated])
  next
    case False
    then have "max (- 1074) (k - 52) = - 1074" by simp
    then have e: "ulp_exponent x = - 1074" by (simp only: ulp_exponent_def k_def)
    have "(2::real) powi (- 1075) = 2 powi (- 1074) / 2"
      using power_int_diff [of "2::real" "- 1074" 1] by simp
    then have "\<bar>round_double x - x\<bar> \<le> 2 powi (- 1075)"
      using round_double_error_ulp [of x] e by simp
    moreover have "0 \<le> \<bar>x\<bar> / 2 ^ 53" by simp
    ultimately show ?thesis by (rule add_increasing2 [rotated])
  qed
qed

subsection \<open>Weights at construction\<close>

lemma rounded_sum_bounds:
  assumes s: "2 powi (- 1022) \<le> s" and hi: "s < 2 ^ 1023"
  shows "2 / 3 * s \<le> round_double s" and "round_double s \<noteq> 0" and "\<not> overflows s"
    and "\<bar>s - round_double s\<bar> \<le> s / 2 ^ 53"
proof -
  have s0: "0 < s" using s by (smt (verit) zero_less_power_int)
  have rel: "\<bar>round_double s - s\<bar> \<le> s / 2 ^ 53"
    using round_double_relative [of s] s s0 by simp
  then show e: "\<bar>s - round_double s\<bar> \<le> s / 2 ^ 53" by (subst abs_minus_commute)
  have "s / 2 ^ 53 \<le> s / 3" using s0 by (simp add: field_simps)
  with rel show lo: "2 / 3 * s \<le> round_double s" by linarith
  with s0 show "round_double s \<noteq> 0" by linarith
  have "round_double s \<le> s + s / 2 ^ 53" using rel by linarith
  also have "\<dots> = s * (1 + 1 / 2 ^ 53)" by (simp add: algebra_simps)
  also have "\<dots> \<le> 2 ^ 1023 * (1 + 1 / 2 ^ 53)"
    using hi by (intro mult_right_mono) simp_all
  also have "\<dots> \<le> max_double" by (simp add: max_double_def)
  finally have "round_double s \<le> max_double" .
  moreover have "0 \<le> round_double s" using lo s0 by linarith
  ultimately show "\<not> overflows s" by (simp add: overflows_def)
qed

lemma stored_pair_sum:
  assumes a: "0 < a" and b: "0 < b"
    and s: "2 powi (- 1022) \<le> a + b" and hi: "a + b < 2 ^ 1023"
  shows "\<bar>round_double (a / round_double (a + b)) + round_double (b / round_double (a + b)) - 1\<bar>
           \<le> 1 / 2 ^ 51"
proof -
  define T where "T = round_double (a + b)"
  define u :: real where "u = 1 / 2 ^ 53"
  define h :: real where "h = 2 powi (- 1075)"
  note sb = rounded_sum_bounds [OF s hi, folded T_def]
  have "0 < 2 / 3 * (a + b)" using a b by simp
  then have T0: "0 < T" using sb(1) by (rule less_le_trans)
  have hu: "2 * h \<le> u" by (simp add: h_def u_def)
  have u0: "0 \<le> u" by (simp add: u_def)
  define r where "r = (a + b) / T"
  have r0: "0 \<le> r" using a b T0 by (simp add: r_def)
  have r32: "r \<le> 3 / 2" using sb(1) T0 by (simp add: r_def field_simps)
  have ea: "\<bar>round_double (a / T) - a / T\<bar> \<le> h + (a / T) * u"
    using round_double_absolute [of "a / T"] a T0 by (simp add: h_def u_def)
  have eb: "\<bar>round_double (b / T) - b / T\<bar> \<le> h + (b / T) * u"
    using round_double_absolute [of "b / T"] b T0 by (simp add: h_def u_def)
  have split: "a / T + b / T = r" by (simp add: r_def add_divide_distrib)
  have "\<bar>r - 1\<bar> = \<bar>a + b - T\<bar> / T" using T0 by (simp add: r_def field_simps)
  also have "\<dots> \<le> ((a + b) * u) / T"
    using sb(4) T0 by (intro divide_right_mono) (simp_all add: u_def)
  also have "\<dots> = r * u" by (simp add: r_def)
  finally have er: "\<bar>r - 1\<bar> \<le> r * u" .
  have "(a / T) * u + (b / T) * u = r * u"
    unfolding split [symmetric] by (rule distrib_right [symmetric])
  with ea eb er split
  have "\<bar>round_double (a / T) + round_double (b / T) - 1\<bar> \<le> 2 * h + 2 * (r * u)" by linarith
  also have "r * u \<le> 3 / 2 * u" using r32 u0 by (rule mult_right_mono)
  then have "2 * h + 2 * (r * u) \<le> 4 * u" using hu by linarith
  finally show ?thesis by (simp add: T_def u_def)
qed

lemma round_double_4: "round_double 4 = 4"
  using round_double_at [of 2 4] by (simp add: round_half_even_def Let_def)

lemma round_double_3_4: "round_double (3 / 4) = 3 / 4"
  using round_double_at [of "- 1" "3 / 4"] by (simp add: round_half_even_def Let_def)

lemma round_double_1_4: "round_double (1 / 4) = 1 / 4"
  using round_double_at [of "- 2" "1 / 4"] by (simp add: round_half_even_def Let_def)

lemma overflows_4: "\<not> overflows 4"
  by (simp add: overflows_def round_double_4 max_double_def)

lemma round_double_tenth: "round_double (1 / 10) = 3602879701896397 / 2 ^ 55"
  using round_double_at [of "- 4" "1 / 10"] by (simp add: round_half_even_def Let_def)

lemma round_double_three_tenths: "round_double (3 / 10) = 5404319552844595 / 2 ^ 54"
  using round_double_at [of "- 2" "3 / 10"] by (simp add: round_half_even_def Let_def)

lemma round_double_sum_tenths:
  "round_double (3602879701896397 / 2 ^ 55 + 5404319552844595 / 2 ^ 54) = 3602879701896397 / 2 ^ 53"
  using round_double_at [of "- 2" "3602879701896397 / 2 ^ 55 + 5404319552844595 / 2 ^ 54"]
  by (simp add: round_half_even_def Let_def)

lemma round_double_quotient_tenth:
  "round_double (3602879701896397 / 2 ^ 55 / (3602879701896397 / 2 ^ 53)) = 1 / 4"
  using round_double_at [of "- 2" "3602879701896397 / 2 ^ 55 / (3602879701896397 / 2 ^ 53)"]
  by (simp add: round_half_even_def Let_def)

lemma round_double_quotient_three_tenths:
  "round_double (5404319552844595 / 2 ^ 54 / (3602879701896397 / 2 ^ 53)) = 3 / 4 - 1 / 2 ^ 53"
  using round_double_at [of "- 1" "5404319552844595 / 2 ^ 54 / (3602879701896397 / 2 ^ 53)"]
  by (simp add: round_half_even_def Let_def)

text \<open>
  Claim C1 says that both constructors normalise their weights, so that the stored
  amplitude/bpm pair and the stored spatial/timing/rhythm triple each sum to exactly 1
  for positive inputs. The scorer does not normalise: constructed with the positive
  weights 2, 1, 1 it stores 2, 1, 1, whose sum is 4. The sequencer divides in double
  arithmetic: constructed with the doubles 0.1 and 0.3 it stores 0.25 and
  0.7499999999999999 (\<open>3/4 - 2^(-53)\<close>), whose sum is not 1.
\<close>

theorem stored_weights_counterexample:
  "RealTimePoseScorer_init 2 1 1 2 (3 / 10) 100 =
     Inr \<lparr> spatial_weight = 2, timing_weight = 1, rhythm_weight = 1, alpha = 2,
           smoothing_factor = 3 / 10, max_history = 100, user_poses = [], user_timestamps = [],
           reference_poses = [], reference_timestamps = [], pose_scores = [], pose_history = [],
           start_time = None, current_ref_index = 0 \<rparr>
   \<and> (2 :: real) + 1 + 1 \<noteq> 1
   \<and> DanceMoveSampler_init (round_double (1 / 10)) (round_double (3 / 10)) 5 (1 / 10) =
       Inr \<lparr> amplitude_weight = 1 / 4, bpm_weight = 3 / 4 - 1 / 2 ^ 53, segment_duration = 5,
             transition_smoothing = 1 / 10 \<rparr>
   \<and> (1 / 4 :: real) + (3 / 4 - 1 / 2 ^ 53) \<noteq> 1"
proof -
  have "\<not> overflows (3602879701896397 / 2 ^ 55 + 5404319552844595 / 2 ^ 54)"
    by (simp only: overflows_def round_double_sum_tenths) (simp add: max_double_def)
  then have "DanceMoveSampler_init (round_double (1 / 10)) (round_double (3 / 10)) 5 (1 / 10) =
       Inr \<lparr> amplitude_weight = 1 / 4, bpm_weight = 3 / 4 - 1 / 2 ^ 53, segment_duration = 5,
             transition_smoothing = 1 / 10 \<rparr>"
    unfolding DanceMoveSampler_init_def Let_def round_double_tenth round_double_three_tenths
      round_double_sum_tenths round_double_quotient_tenth round_double_quotient_three_tenths
    by simp
  then show ?thesis by (simp add: RealTimePoseScorer_init_def)
qed

text \<open>
  Claim C1 as amended: the sequencer stores each weight divided by the sum of the two,
  the sum and each quotient rounded to the nearest double. For positive weights whose
  sum lies between \<open>2^(-1022)\<close> and \<open>2^1023\<close> the stored pair sums to 1 up to
  rounding, within \<open>2^(-51)\<close> of 1; the inputs 3 and 1 become exactly 0.75 and 0.25. The
  scorer stores its three weights exactly as given.
\<close>

theorem weights_at_construction:
  "(0 < amplitude_weight0 \<and> 0 < bpm_weight0
      \<and> 2 powi (- 1022) \<le> amplitude_weight0 + bpm_weight0
      \<and> amplitude_weight0 + bpm_weight0 < 2 ^ 1023 \<longrightarrow>
      (\<exists>s. DanceMoveSampler_init amplitude_weight0 bpm_weight0 sd ts = Inr s
         \<and> amplitude_weight s =
               round_double (amplitude_weight0 / round_double (amplitude_weight0 + bpm_weight0))
         \<and> bpm_weight s =
               round_double (bpm_weight0 / round_double (amplitude_weight0 + bpm_weight0))
         \<and> \<bar>amplitude_weight s + bpm_weight s - 1\<bar> \<le> 1 / 2 ^ 51))
   \<and> DanceMoveSampler_init 3 1 sd ts =
       Inr \<lparr> amplitude_weight = 3 / 4, bpm_weight = 1 / 4, segment_duration = sd,
             transition_smoothing = ts \<rparr>
   \<and> (0 \<le> max_history0 \<longrightarrow>
      (\<exists>s. RealTimePoseScorer_init sw tw rw a sf max_history0 = Inr s
         \<and> spatial_weight s = sw \<and> timing_weight s = tw \<and> rhythm_weight s = rw))"
proof -
  have seq: "\<exists>s. DanceMoveSampler_init amplitude_weight0 bpm_weight0 sd ts = Inr s
         \<and> amplitude_weight s =
               round_double (amplitude_weight0 / round_double (amplitude_weight0 + bpm_weight0))
         \<and> bpm_weight s =
               round_double (bpm_weight0 / round_double (amplitude_weight0 + bpm_weight0))
         \<and> \<bar>amplitude_weight s + bpm_weight s - 1\<bar> \<le> 1 / 2 ^ 51"
    if pos: "0 < amplitude_weight0" "0 < bpm_weight0"
      and lo: "2 powi (- 1022) \<le> amplitude_weight0 + bpm_weight0"
      and hi: "amplitude_weight0 + bpm_weight0 < 2 ^ 1023"
    using rounded_sum_bounds(2,3) [OF lo hi] stored_pair_sum [OF pos lo hi]
    by (simp add: DanceMoveSampler_init_def Let_def)
  have ex: "DanceMoveSampler_init 3 1 sd ts =
       Inr \<lparr> amplitude_weight = 3 / 4, bpm_weight = 1 / 4, segment_duration = sd,
             transition_smoothing = ts \<rparr>"
    by (simp add: DanceMoveSampler_init_def Let_def round_double_4 round_double_3_4
        round_double_1_4 overflows_4)
  have sc: "\<exists>s. RealTimePoseScorer_init sw tw rw a sf max_history0 = Inr s
         \<and> spatial_weight s = sw \<and> timing_weight s = tw \<and> rhythm_weight s = rw"
    if "0 \<le> max_history0"
    using that by (simp add: RealTimePoseScorer_init_def)
  show ?thesis using seq ex sc by blast
qed

theorem weights_at_construction_witness:
  "(\<exists>s. DanceMoveSampler_init 3 1 5 (1 / 10) = Inr s
         \<and> amplitude_weight s = 3 / 4 \<and> bpm_weight s = 1 / 4
         \<and> \<bar>amplitude_weight s + bpm_weight s - 1\<bar> \<le> 1 / 2 ^ 51)
   \<and> (\<exists>s. RealTimePoseScorer_init 2 1 1 2 (3 / 10) 100 = Inr s
         \<and> spatial_weight s = 2 \<and> timing_weight s = 1 \<and> rhythm_weight s = 1)"
  using weights_at_construction [of 3 1 5 "1 / 10" 100 2 1 1 2 "3 / 10"]
  by (simp add: round_double_4 round_double_3_4 round_double_1_4)

subsection \<open>Intensity classification\<close>

text \<open>
  Claim C6 says that for thresholds with \<open>low \<le> high\<close> a score equal to the high
  threshold is classified High. When both thresholds are equal, a score equal to them
  meets the first test of the chain and is classified Low.
\<close>

theorem classify_counterexample:
  "(1 / 2 :: real) \<le> 1 / 2 \<and> (1 / 2 :: real) \<ge> 1 / 2
   \<and> classify_intensity (1 / 2) (1 / 2) (1 / 2) = LOW
   \<and> classify_intensity (1 / 2) (1 / 2) (1 / 2) \<noteq> HIGH"
  by (simp add: classify_intensity_def)

text \<open>
  Claim C6 as amended: for \<open>low \<le> high\<close>, the class is Low when \<open>score \<le> low\<close>, High
  when \<open>score \<ge> high\<close> and \<open>score > low\<close>, Medium when the score lies strictly between;
  a score equal to the low threshold is Low, and a score equal to the high threshold is
  High when the thresholds differ.
\<close>

theorem classify_thresholds:
  "low_threshold \<le> high_threshold \<Longrightarrow>
     (score \<le> low_threshold \<longrightarrow> classify_intensity score low_threshold high_threshold = LOW)
   \<and> (score \<ge> high_threshold \<and> score > low_threshold \<longrightarrow>
        classify_intensity score low_threshold high_threshold = HIGH)
   \<and> (score > low_threshold \<and> score < high_threshold \<longrightarrow>
        classify_intensity score low_threshold high_threshold = MEDIUM)
   \<and> classify_intensity low_threshold low_threshold high_threshold = LOW
   \<and> (low_threshold < high_threshold \<longrightarrow>
        classify_intensity high_threshold low_threshold high_threshold = HIGH)"
  by (auto simp: classify_intensity_def)

theorem classify_thresholds_witness:
  "(3 / 10 :: real) \<le> 7 / 10
   \<and> classify_intensity (3 / 10) (3 / 10) (7 / 10) = LOW
   \<and> classify_intensity (7 / 10) (3 / 10) (7 / 10) = HIGH
   \<and> classify_intensity (44 / 100) (3 / 10) (7 / 10) = MEDIUM"
  using classify_thresholds [of "3 / 10" "7 / 10" "44 / 100"] by simp

subsection \<open>Feature normalisation\<close>

text \<open>
  Claim C7: \<open>normalize_features\<close> maps a non-empty amplitude list whose values are all
  equal to the list of as many 0.5, any other amplitude list to its min-max
  normalisation (the empty list to itself), and every BPM \<open>b\<close> to \<open>(b - 60) / 140\<close>
  clamped to \<open>[0, 1]\<close>; so 40, 260 and 130 become 0, 1 and 0.5.
\<close>

theorem normalize_features_spec:
  "fst (normalize_features amplitudes bpms) =
     (if amplitudes = [] then []
      else if (\<forall>a \<in> set amplitudes. a = hd amplitudes) then replicate (length amplitudes) (1 / 2)
      else map (\<lambda>a. (a - Min (set amplitudes)) / (Max (set amplitudes) - Min (set amplitudes)))
             amplitudes)
   \<and> snd (normalize_features amplitudes bpms) = map (\<lambda>bpm. max 0 (min 1 ((bpm - 60) / 140))) bpms
   \<and> snd (normalize_features amplitudes [40, 260, 130]) = [0, 1, 1 / 2]"
proof -
  have a: "fst (normalize_features amplitudes bpms) =
     (if amplitudes = [] then []
      else if (\<forall>a \<in> set amplitudes. a = hd amplitudes) then replicate (length amplitudes) (1 / 2)
      else map (\<lambda>a. (a - Min (set amplitudes)) / (Max (set amplitudes) - Min (set amplitudes)))
             amplitudes)"
  proof (cases "amplitudes = []")
    case True
    then show ?thesis by (simp add: normalize_features_def)
  next
    case False
    show ?thesis
    proof (cases "\<forall>a \<in> set amplitudes. a = hd amplitudes")
      case True
      with all_equal_iff [OF False] have "\<not> Min (set amplitudes) < Max (set amplitudes)" by simp
      with False True show ?thesis
        by (simp add: normalize_features_def Let_def py_min_Min py_max_Max)
    next
      case nall: False
      with all_equal_iff [OF False] have "Min (set amplitudes) < Max (set amplitudes)" by simp
      with False nall show ?thesis
        by (auto simp add: normalize_features_def Let_def py_min_Min py_max_Max)
    qed
  qed
  have b: "snd (normalize_features amplitudes bs) = map (\<lambda>bpm. max 0 (min 1 ((bpm - 60) / 140))) bs"
    for bs
    by (simp add: normalize_features_def Let_def)
  show ?thesis using a b [of bpms] b [of "[40, 260, 130]"] by simp
qed

theorem normalize_features_spec_witness:
  "fst (normalize_features [5, 5, 5] [40, 260, 130]) = [1 / 2, 1 / 2, 1 / 2]
   \<and> snd (normalize_features [5, 5, 5] [40, 260, 130]) = [0, 1, 1 / 2]"
  using normalize_features_spec [of "[5, 5, 5]" "[40, 260, 130]"] by (simp add: numeral_3_eq_3)

subsection \<open>Pose normalisation\<close>

lemma masked_rows: "map fst (filter snd (zip xs (map P xs))) = filter P xs"
  by (induction xs) auto

lemma mask_any: "True \<in> set (map P xs) \<longleftrightarrow> filter P xs \<noteq> []"
  by (induction xs) auto

lemma map2_by_index:
  "length xs = length ys \<Longrightarrow> map2 f xs ys = map (\<lambda>j. f (xs ! j) (ys ! j)) [0 ..< length xs]"
  by (rule nth_equalityI) simp_all

text \<open>
  Claim C5 says that the height is floored at 1.0, so that the divisor is never below
  1.0. The code replaces the height by 1.0 only when it is exactly zero: the pose with
  joints \<open>(1, 1)\<close> and \<open>(2, 1.5)\<close> has height 0.5 and is divided by 0.5, where a floor at
  1.0 would divide by 1.
\<close>

theorem normalize_pose_counterexample:
  "normalize_pose (Joints (PoseArray 2 [[1, 1], [2, 3 / 2]])) =
     Inr (PoseArray 2 [[- 1, - 1 / 2], [1, 1 / 2]])
   \<and> bbox_normalize (max 1) [[1, 1], [2, 3 / 2]] = [[- 1 / 2, - 1 / 4], [1 / 2, 1 / 4]]"
  by (simp add: normalize_pose_def bbox_normalize_def Let_def column_def numeral_2_eq_2)

text \<open>
  Claim C5 as amended: for a pose of joints with at least two coordinates each,
  \<open>normalize_pose\<close> treats the joints at exactly \<open>(0, 0)\<close> as invalid, takes the bounding
  box over the valid joints, translates by its centre and divides by its height
  \<open>maxY - minY\<close>, where a height of exactly zero is replaced by 1.0; a pose without a
  valid joint is returned unchanged.
\<close>

theorem normalize_pose_bbox:
  assumes rect: "\<forall>row \<in> set m. length row = c" and c2: "2 \<le> c"
  shows "normalize_pose (Joints (PoseArray c m)) =
           Inr (PoseArray c (bbox_normalize (\<lambda>h. if h = 0 then 1 else h) m))"
proof (cases "m = []")
  case True
  then show ?thesis by (simp add: normalize_pose_def bbox_normalize_def)
next
  case False
  define P where "P = (\<lambda>row :: real list. \<not> (row ! 0 = 0 \<and> row ! 1 = 0))"
  define valid where "valid = filter P m"
  have vp: "map fst (filter snd (zip m (map P m))) = valid"
    by (simp only: masked_rows valid_def)
  have guards: "length m \<noteq> 0" "\<not> c < 2" using False c2 by simp_all
  show ?thesis
  proof (cases "valid = []")
    case True
    then have "True \<notin> set (map P m)" using mask_any [of P m] by (simp add: valid_def)
    then have "normalize_pose (Joints (PoseArray c m)) = Inr (PoseArray c m)"
      unfolding normalize_pose_def Let_def P_def using guards by simp
    moreover have "bbox_normalize (\<lambda>h. if h = 0 then 1 else h) m = m"
      using True unfolding bbox_normalize_def Let_def valid_def P_def by simp
    ultimately show ?thesis by simp
  next
    case ne: False
    then have any: "\<not> True \<notin> set (map P m)" using mask_any [of P m] by (simp add: valid_def)
    define lo where "lo = (\<lambda>j. Min ((\<lambda>row. row ! j) ` set valid))"
    define hi where "hi = (\<lambda>j. Max ((\<lambda>row. row ! j) ` set valid))"
    define d where "d = (if hi 1 - lo 1 = 0 then 1 else hi 1 - lo 1)"
    have colne: "column valid j \<noteq> []" for j using ne by (simp add: column_def)
    have mins: "map (\<lambda>j. py_min (column valid j)) [0 ..< c] = map lo [0 ..< c]"
      using colne by (simp add: py_min_Min lo_def column_def)
    have maxs: "map (\<lambda>j. py_max (column valid j)) [0 ..< c] = map hi [0 ..< c]"
      using colne by (simp add: py_max_Max hi_def column_def)
    have center: "map2 (\<lambda>lo hi. (lo + hi) / 2) (map lo [0 ..< c]) (map hi [0 ..< c])
                    = map (\<lambda>j. (lo j + hi j) / 2) [0 ..< c]"
      by (simp add: map2_by_index)
    have one: "map hi [0 ..< c] ! 1 - map lo [0 ..< c] ! 1 = hi 1 - lo 1"
      using c2 by simp
    have lhs: "normalize_pose (Joints (PoseArray c m)) =
        Inr (PoseArray c
               (map (\<lambda>row. map2 (\<lambda>x c. (x - c) / d) row (map (\<lambda>j. (lo j + hi j) / 2) [0 ..< c])) m))"
      unfolding normalize_pose_def Let_def pose_input.case pose_array.sel P_def [symmetric]
      by (simp only: vp any guards mins maxs center one d_def if_False)
    have rows: "map2 (\<lambda>x c. (x - c) / d) row (map (\<lambda>j. (lo j + hi j) / 2) [0 ..< c])
                  = map (\<lambda>j. (row ! j - (lo j + hi j) / 2) / d) [0 ..< length row]"
      if "row \<in> set m" for row
      using that rect by (simp add: map2_by_index)
    have rhs: "bbox_normalize (\<lambda>h. if h = 0 then 1 else h) m =
        map (\<lambda>row. map (\<lambda>j. (row ! j - (lo j + hi j) / 2) / d) [0 ..< length row]) m"
      using ne by (simp add: bbox_normalize_def Let_def P_def valid_def lo_def hi_def d_def)
    show ?thesis unfolding lhs rhs using rows by simp
  qed
qed

theorem normalize_pose_bbox_witness:
  "normalize_pose (Joints (PoseArray 2 [[1, 1], [2, 3 / 2]])) =
     Inr (PoseArray 2 [[- 1, - 1 / 2], [1, 1 / 2]])
   \<and> normalize_pose (Joints (PoseArray 2 [[0, 0], [4, 7]])) = Inr (PoseArray 2 [[- 4, - 7], [0, 0]])"
  using normalize_pose_bbox [of "[[1, 1], [2, 3 / 2]]" 2] normalize_pose_bbox [of "[[0, 0], [4, 7]]" 2]
  by (simp add: bbox_normalize_def Let_def)

subsection \<open>Reference alignment\<close>

lemma round_double_zero: "round_double 0 = 0"
  by (simp add: round_double_def)

text \<open>
  Claim C8 gives the matched index for every timestamp scored against a non-empty
  reference: \<open>clamp(floor(((t - start) mod refDuration) / refDuration * refPoseCount), 0,
  refPoseCount - 1)\<close>, which is 0 for a reference of one pose. A reference of one pose
  loaded without timestamps gets the timestamps \<open>[0]\<close>, so its duration is zero, the
  remainder by the duration raises \<^verbatim>\<open>ZeroDivisionError\<close>, and \<^verbatim>\<open>score_pose\<close> fails with
  it: there is no index. The divisor is not guarded here, where \<^verbatim>\<open>normalize_pose\<close>
  replaces a zero height by 1.0, \<^verbatim>\<open>compute_rhythm_score\<close> adds \<^verbatim>\<open>1e-6\<close> to its divisor, and
  this function itself falls back to a duration of 1.0 when there are no timestamps.
\<close>

theorem reference_alignment_zero_duration:
  "reference_poses (load_reference_dance default_scorer [PoseArray 2 [[1, 2], [3, 5]]] None)
     = [PoseArray 2 [[1, 2], [3, 5]]]
   \<and> reference_timestamps (load_reference_dance default_scorer [PoseArray 2 [[1, 2], [3, 5]]] None)
     = [0]
   \<and> find_best_reference_match
       (load_reference_dance default_scorer [PoseArray 2 [[1, 2], [3, 5]]] None)
       (PoseArray 2 [[1, 2], [3, 5]]) 7
     = Inl ZeroDivisionError
   \<and> score_pose (load_reference_dance default_scorer [PoseArray 2 [[1, 2], [3, 5]]] None)
       (Joints (PoseArray 2 [[1, 2], [3, 5]])) (Some 7) 7
     = Inl ZeroDivisionError"
  by (simp add: load_reference_dance_def default_scorer_def find_best_reference_match_def
      ref_duration_of_def round_double_zero score_pose_def normalize_pose_def smooth_pose_def
      deque_append_def column_def numeral_2_eq_2 Let_def)

text \<open>
  The index is computed in double arithmetic. With 22 reference poses, a duration of 22
  and an elapsed time of 15 the progress \<^verbatim>\<open>15 / 22\<close> rounds down, its product with 22
  rounds to 14.999999999999998, and the matched index is 14, where the exact quotient
  gives 15.
\<close>

lemma round_double_15: "round_double 15 = 15"
  using round_double_at [of 3 15] by (simp add: round_half_even_def Let_def)

lemma round_double_15_22: "round_double (15 / 22) = 6141272219141585 / 2 ^ 53"
  using round_double_at [of "- 1" "15 / 22"] by (simp add: round_half_even_def Let_def)

lemma round_double_index: "round_double (6141272219141585 / 2 ^ 53 * 22) = 8444249301319679 / 2 ^ 49"
  using round_double_at [of 3 "6141272219141585 / 2 ^ 53 * 22"]
  by (simp add: round_half_even_def Let_def)

lemma py_fmod_15_22: "py_fmod 15 22 = 15"
  by (simp add: py_fmod_def c_fmod_def py_int_def Let_def)

lemma overflows_15: "\<not> overflows 15"
  by (simp add: overflows_def round_double_15 max_double_def)

lemma index_15_22:
  "py_int (round_double (round_double (py_fmod (round_double 15) 22 / 22) * 22)) = 14"
proof -
  have idx: "py_int (8444249301319679 / 2 ^ 49) = 14"
    unfolding py_int_def by (simp add: floor_eq_iff)
  show ?thesis
    unfolding round_double_15 py_fmod_15_22 round_double_15_22 round_double_index idx
    by (rule refl)
qed

lemma reference_index_rounding:
  "find_best_reference_match
     (load_reference_dance (default_scorer\<lparr> start_time := Some 0 \<rparr>)
        (replicate 22 (PoseArray 2 [[0, 0]])) (Some [0, 22]))
     (PoseArray 2 [[0, 0]]) 15
   = Inr ((14, Fin 0),
        load_reference_dance (default_scorer\<lparr> start_time := Some 0 \<rparr>)
          (replicate 22 (PoseArray 2 [[0, 0]])) (Some [0, 22]))
   \<and> \<lfloor>(15 :: real) / 22 * 22\<rfloor> = 15"
  by (simp add: find_best_reference_match_def load_reference_dance_def default_scorer_def
      ref_duration_of_def Let_def overflows_15 index_15_22 py_nth_def
      compute_pose_distance_def take_rows_def euclidean_def broadcast1_def)

text \<open>
  A timestamp just before the start of the session gives a small negative elapsed time.
  Its remainder is the duration minus that amount, which rounds to the duration itself:
  the progress is 1.0, the product is the number of poses, and \<^verbatim>\<open>min\<close> clamps the index to
  the last pose.
\<close>

lemma round_double_neg_tiny: "round_double (0 - 1 / 2 ^ 54) = - (1 / 2 ^ 54)"
  using round_double_at [of "- 54" "- (1 / 2 ^ 54)"] by (simp add: round_half_even_def Let_def)

lemma round_double_below_one: "round_double (- (1 / 2 ^ 54) + 1) = 1"
  using round_double_at [of "- 1" "- (1 / 2 ^ 54) + 1"] by (simp add: round_half_even_def Let_def)

lemma c_fmod_neg_tiny: "c_fmod (- (1 / 2 ^ 54)) 1 = - (1 / 2 ^ 54)"
proof -
  have "\<lceil>- (1 / 2 ^ 54) :: real\<rceil> = 0" by (simp add: ceiling_eq_iff)
  then show ?thesis by (simp add: c_fmod_def py_int_def)
qed

lemma py_fmod_neg_tiny: "py_fmod (- (1 / 2 ^ 54)) 1 = 1"
  unfolding py_fmod_def Let_def c_fmod_neg_tiny round_double_below_one by simp

lemma round_double_1: "round_double 1 = 1"
  using round_double_at [of 0 1] by (simp add: round_half_even_def Let_def)

lemma round_double_2: "round_double 2 = 2"
  using round_double_at [of 1 2] by (simp add: round_half_even_def Let_def)

lemma index_neg_tiny:
  "py_int (round_double (round_double (py_fmod (round_double (- (1 / 18014398509481984))) 1) * 2)) = 2"
proof -
  have a: "- (1 / 18014398509481984 :: real) = 0 - 1 / 2 ^ 54" by simp
  have b: "(1 :: real) * 2 = 2" by simp
  have idx: "py_int 2 = 2" by (simp add: py_int_def)
  show ?thesis
    unfolding a round_double_neg_tiny py_fmod_neg_tiny round_double_1 b round_double_2 idx
    by (rule refl)
qed

lemma overflows_neg_tiny: "\<not> overflows (0 - 1 / 2 ^ 54)"
  unfolding overflows_def round_double_neg_tiny by (simp add: max_double_def)

lemma reference_index_clamped:
  "find_best_reference_match
     (load_reference_dance (default_scorer\<lparr> start_time := Some (1 / 2 ^ 54) \<rparr>)
        [PoseArray 2 [[0, 0]], PoseArray 2 [[0, 0]]] (Some [0, 1]))
     (PoseArray 2 [[0, 0]]) 0
   = Inr ((1, Fin 0),
        load_reference_dance (default_scorer\<lparr> start_time := Some (1 / 2 ^ 54) \<rparr>)
          [PoseArray 2 [[0, 0]], PoseArray 2 [[0, 0]]] (Some [0, 1]))"
proof -
  have "\<not> overflows (- (1 / 18014398509481984))" using overflows_neg_tiny by simp
  then show ?thesis
    by (simp add: find_best_reference_match_def load_reference_dance_def default_scorer_def
        ref_duration_of_def Let_def index_neg_tiny py_nth_def
        compute_pose_distance_def take_rows_def euclidean_def broadcast1_def)
qed

subsection \<open>Scoring against an empty reference\<close>

lemma frame_score_inf: "0 < alpha s \<Longrightarrow> compute_frame_score s PosInf = Fin 0"
  by (simp add: compute_frame_score_def xmul_def xexp_def xclip_def)

lemma deque_append_length: "length (deque_append n xs x) \<le> Suc (length xs)"
  by (simp add: deque_append_def)

lemma deque_append_cases:
  "deque_append n xs x =
     (if n = 0 then [] else if length xs < n then xs @ [x] else tl xs @ [x])"
  by (simp add: deque_append_def)

lemma smooth_pose_reference:
  "smooth_pose s m = Inr (sm, s1) \<Longrightarrow>
     reference_poses s1 = reference_poses s \<and> alpha s1 = alpha s \<and> max_history s1 = max_history s
     \<and> pose_scores s1 = pose_scores s \<and> user_poses s1 = user_poses s"
  by (auto simp: smooth_pose_def Let_def split: if_splits sum.splits)

lemma score_pose_empty_reference_sample:
  assumes ref: "reference_poses s = []" and a: "0 < alpha s"
    and run: "score_pose s user_pose timestamp_arg now = Inr (ps, s')"
  shows "spatial_score ps = Fin 0 \<and> frame_score ps = Fin 0
         \<and> pose_scores s' =
             (if max_history s = 0 then []
              else if length (pose_scores s) < max_history s then pose_scores s @ [ps]
              else tl (pose_scores s) @ [ps])"
proof -
  from run obtain m where n: "normalize_pose user_pose = Inr m"
    by (auto simp: score_pose_def Let_def split: sum.splits)
  from run n obtain sm s1 where sp: "smooth_pose s m = Inr (sm, s1)"
    by (auto simp: score_pose_def Let_def split: sum.splits)
  note keep = smooth_pose_reference [OF sp]
  define t0 where "t0 = (case timestamp_arg of None \<Rightarrow> now | Some t \<Rightarrow> t)"
  define s2 where "s2 = s1\<lparr> user_poses := deque_append (max_history s1) (user_poses s1) sm,
                            user_timestamps := deque_append (max_history s1) (user_timestamps s1) t0 \<rparr>"
  have fb: "find_best_reference_match s2 sm t0 = Inr ((0, PosInf), s2)"
    using keep ref by (simp add: find_best_reference_match_def s2_def)
  have fs: "compute_frame_score s2 PosInf = Fin 0"
    using frame_score_inf [of s2] keep a by (simp add: s2_def)
  from run n sp fb obtain r where r: "compute_rhythm_score s2 = Inr r"
    by (auto simp: score_pose_def Let_def t0_def [symmetric] s2_def [symmetric] split: sum.splits)
  have res: "ps = \<lparr> spatial_score = Fin 0, timing_score = compute_timing_score s2,
                    rhythm_score = r, frame_score = Fin 0, timestamp = t0 \<rparr>"
     and res': "s' = s2\<lparr> pose_scores := deque_append (max_history s2) (pose_scores s2) ps \<rparr>"
    using run n sp fb r fs
    by (auto simp: score_pose_def Let_def t0_def [symmetric] s2_def [symmetric])
  have "pose_scores s' = deque_append (max_history s) (pose_scores s) ps"
    using res' keep by (simp add: s2_def)
  then show ?thesis using res by (simp add: deque_append_cases)
qed

lemma score_pose_fresh_returns:
  assumes ref: "reference_poses s = []" and h: "pose_history s = []" and u: "length (user_poses s) < 2"
    and n: "normalize_pose user_pose = Inr m"
  shows "\<exists>ps s'. score_pose s user_pose timestamp_arg now = Inr (ps, s')"
proof -
  have "length (deque_append (max_history s) (user_poses s) m) < 3"
    using deque_append_length [of "max_history s" "user_poses s" m] u by simp
  then show ?thesis
    using ref h n
    by (simp add: score_pose_def Let_def smooth_pose_def find_best_reference_match_def
        compute_rhythm_score_def)
qed

text \<open>
  Claim C9 says that on a session with an empty reference and a positive \<open>alpha\<close> the
  returned sample has spatial score 0 and frame score 0 and is still appended to the
  score history. The history is a deque bounded by \<^verbatim>\<open>max_history\<close>: on a session made
  with \<^verbatim>\<open>max_history = 0\<close> the sample is returned with both scores 0, and the history is
  empty afterwards.
\<close>

theorem score_history_counterexample:
  "reference_poses (default_scorer\<lparr> max_history := 0 \<rparr>) = []
   \<and> 0 < alpha (default_scorer\<lparr> max_history := 0 \<rparr>)
   \<and> score_pose (default_scorer\<lparr> max_history := 0 \<rparr>) (Joints (PoseArray 2 [[1, 2], [3, 5]]))
         (Some 0) 7 =
       Inr (\<lparr> spatial_score = Fin 0, timing_score = 1 / 2, rhythm_score = 1 / 2,
               frame_score = Fin 0, timestamp = 0 \<rparr>,
            default_scorer
              \<lparr> max_history := 0,
                pose_history := [PoseArray 2 [[- 1 / 3, - 1 / 2], [1 / 3, 1 / 2]]] \<rparr>)
   \<and> pose_scores (default_scorer
              \<lparr> max_history := 0,
                pose_history := [PoseArray 2 [[- 1 / 3, - 1 / 2], [1 / 3, 1 / 2]]] \<rparr>) = []"
  by (simp add: score_pose_def normalize_pose_def smooth_pose_def deque_append_def
      find_best_reference_match_def compute_frame_score_def xmul_def xexp_def xclip_def
      compute_timing_score_def compute_rhythm_score_def column_def numeral_2_eq_2 Let_def
      default_scorer_def)

text \<open>
  Claim C9 as amended: on a session whose reference is empty and whose \<open>alpha\<close> is
  positive, every sample returned by \<open>score_pose\<close> has spatial score 0 and frame score
  0. When \<^verbatim>\<open>max_history\<close> is positive the sample is appended to the score history: the
  history afterwards is the history before, without its oldest entry when it was full,
  followed by the sample. When \<^verbatim>\<open>max_history\<close> is 0 the history stays empty. The call
  does return on a session without pose history and with fewer than two stored poses,
  for every pose that \<open>normalize_pose\<close> accepts.
\<close>

theorem score_pose_empty_reference:
  assumes ref: "reference_poses s = []" and a: "0 < alpha s"
  shows "(\<forall>ps s'. score_pose s user_pose timestamp_arg now = Inr (ps, s') \<longrightarrow>
            spatial_score ps = Fin 0 \<and> frame_score ps = Fin 0
            \<and> pose_scores s' =
                (if max_history s = 0 then []
                 else if length (pose_scores s) < max_history s then pose_scores s @ [ps]
                 else tl (pose_scores s) @ [ps]))
         \<and> (pose_history s = [] \<and> length (user_poses s) < 2
              \<and> (\<exists>m. normalize_pose user_pose = Inr m) \<longrightarrow>
            (\<exists>ps s'. score_pose s user_pose timestamp_arg now = Inr (ps, s')))"
  using score_pose_empty_reference_sample [OF ref a] score_pose_fresh_returns [OF ref]
  by blast

theorem score_pose_empty_reference_witness:
  "score_pose
     (default_scorer\<lparr> max_history := 2,
        pose_scores := [\<lparr> spatial_score = Fin 0, timing_score = 1 / 2, rhythm_score = 1 / 2,
                          frame_score = Fin 0, timestamp = 1 \<rparr>,
                        \<lparr> spatial_score = Fin 0, timing_score = 1 / 2, rhythm_score = 1 / 2,
                          frame_score = Fin 0, timestamp = 2 \<rparr>] \<rparr>)
     (Joints (PoseArray 2 [[1, 2], [3, 5]])) (Some 3) 7 =
       Inr (\<lparr> spatial_score = Fin 0, timing_score = 1 / 2, rhythm_score = 1 / 2,
               frame_score = Fin 0, timestamp = 3 \<rparr>,
            default_scorer
              \<lparr> max_history := 2,
                user_poses := [PoseArray 2 [[- 1 / 3, - 1 / 2], [1 / 3, 1 / 2]]],
                user_timestamps := [3],
                pose_scores := [\<lparr> spatial_score = Fin 0, timing_score = 1 / 2, rhythm_score = 1 / 2,
                                  frame_score = Fin 0, timestamp = 2 \<rparr>,
                                \<lparr> spatial_score = Fin 0, timing_score = 1 / 2, rhythm_score = 1 / 2,
                                  frame_score = Fin 0, timestamp = 3 \<rparr>],
                pose_history := [PoseArray 2 [[- 1 / 3, - 1 / 2], [1 / 3, 1 / 2]]] \<rparr>)
   \<and> pose_scores
       (default_scorer
              \<lparr> max_history := 2,
                user_poses := [PoseArray 2 [[- 1 / 3, - 1 / 2], [1 / 3, 1 / 2]]],
                user_timestamps := [3],
                pose_scores := [\<lparr> spatial_score = Fin 0, timing_score = 1 / 2, rhythm_score = 1 / 2,
                                  frame_score = Fin 0, timestamp = 2 \<rparr>,
                                \<lparr> spatial_score = Fin 0, timing_score = 1 / 2, rhythm_score = 1 / 2,
                                  frame_score = Fin 0, timestamp = 3 \<rparr>],
                pose_history := [PoseArray 2 [[- 1 / 3, - 1 / 2], [1 / 3, 1 / 2]]] \<rparr>)
     = tl [\<lparr> spatial_score = Fin 0, timing_score = 1 / 2, rhythm_score = 1 / 2,
             frame_score = Fin 0, timestamp = 1 \<rparr>,
           \<lparr> spatial_score = Fin 0, timing_score = 1 / 2, rhythm_score = 1 / 2,
             frame_score = Fin 0, timestamp = 2 \<rparr>]
         @ [\<lparr> spatial_score = Fin 0, timing_score = 1 / 2, rhythm_score = 1 / 2,
              frame_score = Fin 0, timestamp = 3 \<rparr>]"
proof -
  define s where "s = default_scorer\<lparr> max_history := 2,
        pose_scores := [\<lparr> spatial_score = Fin 0, timing_score = 1 / 2, rhythm_score = 1 / 2,
                          frame_score = Fin 0, timestamp = 1 \<rparr>,
                        \<lparr> spatial_score = Fin 0, timing_score = 1 / 2, rhythm_score = 1 / 2,
                          frame_score = Fin 0, timestamp = 2 \<rparr>] \<rparr>"
  have r: "reference_poses s = []" and a: "0 < alpha s"
    by (simp_all add: s_def default_scorer_def)
  have run: "score_pose s (Joints (PoseArray 2 [[1, 2], [3, 5]])) (Some 3) 7 =
       Inr (\<lparr> spatial_score = Fin 0, timing_score = 1 / 2, rhythm_score = 1 / 2,
               frame_score = Fin 0, timestamp = 3 \<rparr>,
            default_scorer
              \<lparr> max_history := 2,
                user_poses := [PoseArray 2 [[- 1 / 3, - 1 / 2], [1 / 3, 1 / 2]]],
                user_timestamps := [3],
                pose_scores := [\<lparr> spatial_score = Fin 0, timing_score = 1 / 2, rhythm_score = 1 / 2,
                                  frame_score = Fin 0, timestamp = 2 \<rparr>,
                                \<lparr> spatial_score = Fin 0, timing_score = 1 / 2, rhythm_score = 1 / 2,
                                  frame_score = Fin 0, timestamp = 3 \<rparr>],
                pose_history := [PoseArray 2 [[- 1 / 3, - 1 / 2], [1 / 3, 1 / 2]]] \<rparr>)"
    by (simp add: s_def score_pose_def normalize_pose_def smooth_pose_def deque_append_def
        find_best_reference_match_def compute_frame_score_def xmul_def xexp_def xclip_def
        compute_timing_score_def compute_rhythm_score_def column_def numeral_2_eq_2 Let_def
        default_scorer_def)
  show ?thesis
    using score_pose_empty_reference [OF r a, of "Joints (PoseArray 2 [[1, 2], [3, 5]])" "Some 3" 7]
      run
    by (simp add: s_def [symmetric])
qed

subsection \<open>The search for a clean frame\<close>

lemma search_directions_both:
  "search_directions raw df n offset [1, - 1] =
     (case frame_at raw (nat ((df + offset) mod int n)) of
        Inl e \<Rightarrow> Inl e
      | Inr p \<Rightarrow>
          if \<not> has_nan p then Inr (Some p)
          else (case frame_at raw (nat ((df - offset) mod int n)) of
                  Inl e \<Rightarrow> Inl e
                | Inr q \<Rightarrow> if \<not> has_nan q then Inr (Some q) else Inr None))"
  by (simp add: Let_def split: sum.splits)

lemma frame_at_defined:
  assumes nf: "num_frames_of raw = Some n" and c: "frame_at raw k0 = Inr c" and k: "k < n"
  shows "\<exists>p. frame_at raw k = Inr p"
proof (cases "length (shape raw) = 4")
  case True
  then obtain a b rest where sh: "shape raw = a # b # rest"
    by (cases "shape raw"; cases "tl (shape raw)") auto
  with nf True have b: "b = n" by (simp add: num_frames_of_def)
  from c True sh have a0: "0 < a"
    by (auto simp: frame_at_def nd_index_def split: if_splits sum.splits)
  show ?thesis using True sh b a0 k by (simp add: frame_at_def nd_index_def)
next
  case False
  with nf have l3: "length (shape raw) = 3" and n: "shape raw ! 0 = n"
    by (auto simp: num_frames_of_def split: if_splits)
  then obtain rest where sh: "shape raw = n # rest" by (cases "shape raw") auto
  show ?thesis using False sh k by (simp add: frame_at_def nd_index_def)
qed

lemma mod_in_range: "0 < n \<Longrightarrow> nat (x mod int n) < n"
  by (simp add: nat_less_iff)

lemma search_offsets_first_clean:
  assumes wf: "\<forall>k < n. \<exists>p. frame_at raw k = Inr p" and n0: "0 < n"
  shows "search_offsets raw df n (map int os) =
           Inr (first_clean raw
                  (concat (map (\<lambda>offset. [(df + int offset) mod int n, (df - int offset) mod int n]) os)))"
proof (induction os)
  case Nil
  show ?case by simp
next
  case (Cons o1 os)
  obtain p where p: "frame_at raw (nat ((df + int o1) mod int n)) = Inr p"
    using wf mod_in_range [OF n0] by blast
  obtain q where q: "frame_at raw (nat ((df - int o1) mod int n)) = Inr q"
    using wf mod_in_range [OF n0] by blast
  show ?case using Cons p q by (simp add: search_directions_both del: search_directions.simps)
qed


lemma find_clean_frame_candidates:
  assumes wf: "\<forall>k < n. \<exists>p. frame_at raw k = Inr p" and n0: "0 < n"
  shows "find_clean_frame raw df n = Inr (first_clean raw (search_candidates df n (min 50 n - 1)))"
proof -
  have "Suc (min 50 n - 1) = min 50 n" using n0 by simp
  then show ?thesis
    using search_offsets_first_clean [OF wf n0, of df "[1 ..< min 50 n]"]
    by (simp add: find_clean_frame_def search_candidates_def)
qed

lemma take_one_drop: "k < length xs \<Longrightarrow> take (Suc 0) (drop k xs) = [xs ! k]"
  by (simp add: take_Suc_conv_app_nth)

lemma sparse_clip_frames: "num_frames_of sparse_clip = Some 100"
  by (simp add: num_frames_of_def sparse_clip_def)

lemma sparse_clip_frame_at:
  assumes "k < 100"
  shows "frame_at sparse_clip k = Inr (NdArray [1, 1] [if k = 50 then Num 1 else NaN])"
proof -
  define xs where "xs = replicate 50 NaN @ [Num 1] @ replicate 49 NaN"
  have len: "length xs = 100" by (simp add: xs_def)
  have nth: "xs ! k = (if k = 50 then Num 1 else NaN)"
    using assms by (auto simp: xs_def nth_append nth_Cons')
  have eq: "sparse_clip = NdArray [100, 1, 1] xs" by (simp add: sparse_clip_def xs_def)
  have "frame_at (NdArray [100, 1, 1] xs) k = Inr (NdArray [1, 1] [xs ! k])"
    using assms len by (simp add: frame_at_def nd_index_def take_one_drop)
  then show ?thesis unfolding eq using nth by simp
qed

lemma first_clean_none:
  "\<forall>k \<in> set ks. \<exists>p. frame_at raw (nat k) = Inr p \<and> has_nan p \<Longrightarrow> first_clean raw ks = None"
  by (induction ks) auto

lemma first_clean_append:
  "first_clean raw ks = None \<Longrightarrow> first_clean raw (ks @ ls) = first_clean raw ls"
  by (induction ks) (auto split: sum.splits if_splits)

lemma search_candidates_Suc:
  "search_candidates df n (Suc m) =
     search_candidates df n m @ [(df + int (Suc m)) mod int n, (df - int (Suc m)) mod int n]"
  by (simp add: search_candidates_def)

lemma sparse_clip_49: "first_clean sparse_clip (search_candidates 0 100 49) = None"
proof (rule first_clean_none, rule ballI)
  fix k assume "k \<in> set (search_candidates 0 100 49)"
  then obtain offset where o: "1 \<le> offset" "offset < 50"
    and k: "k = int offset mod 100 \<or> k = (- int offset) mod 100"
    by (auto simp: search_candidates_def)
  have "int offset mod 100 = int offset" using o by simp
  moreover have "(- int offset) mod 100 = 100 - int offset"
    using o by (simp add: zmod_zminus1_eq_if)
  ultimately have "nat k < 100 \<and> nat k \<noteq> 50" using k o by auto
  then show "\<exists>p. frame_at sparse_clip (nat k) = Inr p \<and> has_nan p"
    using sparse_clip_frame_at [of "nat k"] by (simp add: has_nan_def)
qed

text \<open>
  Claim C4 says that the search covers the offsets 1 to \<open>min(50, frameCount)\<close>
  inclusive. The loop is \<^verbatim>\<open>range(1, min(50, num_frames))\<close>, which stops one offset
  earlier. In a clip of 100 frames whose only clean frame is frame 50, the search from
  frame 0 finds nothing and the default pose is used, although offset 50 would have
  reached frame 50.
\<close>

theorem clean_frame_search_counterexample:
  "find_clean_frame sparse_clip 0 100 = Inr None
   \<and> resolve_loaded sparse_clip 0 None = (Some default_pose, 0, Some (NdArray [1, 1] [NaN]))
   \<and> first_clean sparse_clip (search_candidates 0 100 (min 50 100)) = Some (NdArray [1, 1] [Num 1])"
proof -
  have wf: "\<forall>k < 100. \<exists>p. frame_at sparse_clip k = Inr p"
    using sparse_clip_frame_at by blast
  have a: "find_clean_frame sparse_clip 0 100 = Inr None"
    using find_clean_frame_candidates [OF wf, of 0] sparse_clip_49 by simp
  have "num_frames_or_one sparse_clip = 100"
    using sparse_clip_frames by (simp add: num_frames_or_one_def)
  then have b: "resolve_loaded sparse_clip 0 None = (Some default_pose, 0, Some (NdArray [1, 1] [NaN]))"
    using a sparse_clip_frames sparse_clip_frame_at [of 0]
    by (simp add: resolve_loaded_def Let_def has_nan_def)
  have "search_candidates 0 100 50 = search_candidates 0 100 49 @ [50 mod 100, (- 50) mod 100]"
    using search_candidates_Suc [of 0 100 49] by simp
  then have c: "first_clean sparse_clip (search_candidates 0 100 (min 50 100)) = Some (NdArray [1, 1] [Num 1])"
    using first_clean_append [OF sparse_clip_49] sparse_clip_frame_at [of 50]
    by (simp add: has_nan_def)
  show ?thesis using a b c by simp
qed

text \<open>
  Claim C4 as amended: when the resolved frame of a loaded clip holds a \<^verbatim>\<open>NaN\<close>, the
  search runs over the offsets 1 to \<open>min(50, frameCount) - 1\<close>, at each offset the \<open>+\<close>
  direction and then the \<open>-\<close> direction, each index wrapped modulo the frame count, and
  the first frame free of \<^verbatim>\<open>NaN\<close> becomes the pose; only when there is none is the
  default standing pose used. A resolved frame without \<^verbatim>\<open>NaN\<close> is used as it is.
\<close>

theorem clean_frame_search:
  assumes nf: "num_frames_of raw = Some n" and n0: "0 < n"
    and c: "frame_at raw (nat (df0 mod int n)) = Inr c"
  shows "find_clean_frame raw df n = Inr (first_clean raw (search_candidates df n (min 50 n - 1)))
       \<and> resolve_loaded raw df0 cand =
           (if \<not> has_nan c then (Some c, df0 mod int n, Some c)
            else (Some (case first_clean raw (search_candidates (df0 mod int n) n (min 50 n - 1)) of
                          Some p \<Rightarrow> p
                        | None \<Rightarrow> default_pose),
                  df0 mod int n, Some c))"
proof -
  have wf: "\<forall>k < n. \<exists>p. frame_at raw k = Inr p"
    using frame_at_defined [OF nf c] by blast
  note search = find_clean_frame_candidates [OF wf n0]
  have one: "num_frames_or_one raw = n" using nf by (simp add: num_frames_or_one_def)
  have "resolve_loaded raw df0 cand =
           (if \<not> has_nan c then (Some c, df0 mod int n, Some c)
            else (Some (case first_clean raw (search_candidates (df0 mod int n) n (min 50 n - 1)) of
                          Some p \<Rightarrow> p
                        | None \<Rightarrow> default_pose),
                  df0 mod int n, Some c))"
    using nf n0 c one search [of "df0 mod int n"]
    by (simp add: resolve_loaded_def Let_def split: option.splits)
  with search [of df] show ?thesis by simp
qed

theorem clean_frame_search_witness:
  "num_frames_of (NdArray [3, 1, 1] [NaN, NaN, Num 7]) = Some 3
   \<and> frame_at (NdArray [3, 1, 1] [NaN, NaN, Num 7]) (nat (4 mod int 3)) = Inr (NdArray [1, 1] [NaN])
   \<and> find_clean_frame (NdArray [3, 1, 1] [NaN, NaN, Num 7]) 1 3 = Inr (Some (NdArray [1, 1] [Num 7]))
   \<and> resolve_loaded (NdArray [3, 1, 1] [NaN, NaN, Num 7]) 4 None
       = (Some (NdArray [1, 1] [Num 7]), 1, Some (NdArray [1, 1] [NaN]))"
proof -
  have nf: "num_frames_of (NdArray [3, 1, 1] [NaN, NaN, Num 7]) = Some 3"
    by (simp add: num_frames_of_def)
  have c: "frame_at (NdArray [3, 1, 1] [NaN, NaN, Num 7]) (nat (4 mod int 3)) = Inr (NdArray [1, 1] [NaN])"
    by (simp add: frame_at_def nd_index_def)
  have fc: "first_clean (NdArray [3, 1, 1] [NaN, NaN, Num 7]) (search_candidates 1 3 2)
              = Some (NdArray [1, 1] [Num 7])"
    by (simp add: search_candidates_def frame_at_def nd_index_def has_nan_def upt_rec numeral_2_eq_2)
  show ?thesis
    using nf c fc clean_frame_search [OF nf _ c, of 1 None]
    by (simp add: has_nan_def)
qed

subsection \<open>Clip selection when every attempt fails\<close>

lemma choose_dance_pool: "choose_dance env i r = random_choice r (dance_pool env i)"
  by (cases i) (simp_all add: choose_dance_def dance_pool_def Let_def random_choice_def)

lemma attempt_list_length: "length (attempt_list env i k pos t) = k"
  by (induction k arbitrary: pos t) (simp_all add: Let_def)

lemma retry_loop_step:
  assumes pool: "dance_pool env i \<noteq> []"
  shows "retry_loop env i (Suc k) st =
     (let c = dance_pool env i ! (random env (rng_pos st) mod length (dance_pool env i));
          v = dance_passes_filter env (io_pos st) c (Suc (rng_pos st))
      in if fst v
         then Inr (st\<lparr> selected_dance := Some c,
                       rng_pos := snd v,
                       io_pos := Suc (Suc (io_pos st)),
                       current_dance_file := Some c,
                       current_dance_duration := get_dance_duration env (Suc (io_pos st)) c,
                       current_dance_elapsed := 0,
                       current_intensity := Some i \<rparr>)
         else retry_loop env i k
                (st\<lparr> selected_dance := Some c, rng_pos := snd v, io_pos := Suc (io_pos st) \<rparr>))"
proof -
  define c where "c = dance_pool env i ! (random env (rng_pos st) mod length (dance_pool env i))"
  have ch: "choose_dance env i (random env (rng_pos st)) = Inr c"
    using pool by (simp add: choose_dance_pool random_choice_def c_def)
  obtain ok pos' where v: "dance_passes_filter env (io_pos st) c (Suc (rng_pos st)) = (ok, pos')"
    by (cases "dance_passes_filter env (io_pos st) c (Suc (rng_pos st))")
  show ?thesis
    unfolding Let_def c_def [symmetric]
    using ch v by (cases ok) simp_all
qed

lemma retry_loop_all_fail:
  assumes pool: "dance_pool env i \<noteq> []"
    and fail: "\<forall>a \<in> set (attempt_list env i (Suc k) (rng_pos st) (io_pos st)). \<not> fst (snd a)"
  shows "retry_loop env i (Suc k) st =
           Inr (st\<lparr> selected_dance :=
                       Some (fst (last (attempt_list env i (Suc k) (rng_pos st) (io_pos st)))),
                     rng_pos := snd (snd (last (attempt_list env i (Suc k) (rng_pos st) (io_pos st)))),
                     io_pos := io_pos st + Suc k \<rparr>)"
  using fail
proof (induction k arbitrary: st)
  case 0
  then show ?case by (subst retry_loop_step [OF pool]) (simp add: Let_def)
next
  case (Suc k)
  define c where "c = dance_pool env i ! (random env (rng_pos st) mod length (dance_pool env i))"
  define v where "v = dance_passes_filter env (io_pos st) c (Suc (rng_pos st))"
  define st0 where
    "st0 = st\<lparr> selected_dance := Some c, rng_pos := snd v, io_pos := Suc (io_pos st) \<rparr>"
  have unf: "attempt_list env i (Suc (Suc k)) (rng_pos st) (io_pos st) =
               (c, fst v, snd v) # attempt_list env i (Suc k) (rng_pos st0) (io_pos st0)"
    by (simp add: Let_def c_def v_def st0_def)
  have nf: "\<not> fst v" using Suc.prems unfolding unf by simp
  have rest: "\<forall>a \<in> set (attempt_list env i (Suc k) (rng_pos st0) (io_pos st0)). \<not> fst (snd a)"
    using Suc.prems unfolding unf by simp
  have ne: "attempt_list env i (Suc k) (rng_pos st0) (io_pos st0) \<noteq> []"
    using attempt_list_length [of env i "Suc k" "rng_pos st0" "io_pos st0"] by auto
  have "retry_loop env i (Suc (Suc k)) st = retry_loop env i (Suc k) st0"
    using nf by (subst retry_loop_step [OF pool])
      (simp add: Let_def c_def v_def st0_def del: retry_loop.simps)
  also note Suc.IH [OF rest]
  finally show ?case
    unfolding unf using ne by (simp add: st0_def)
qed

lemma retry_loop_first_pass:
  assumes pool: "dance_pool env i \<noteq> []"
    and j: "j < k"
    and pass: "fst (snd (attempt_list env i k (rng_pos st) (io_pos st) ! j))"
    and before: "\<forall>j' < j. \<not> fst (snd (attempt_list env i k (rng_pos st) (io_pos st) ! j'))"
  shows "retry_loop env i k st =
           Inr (st\<lparr> selected_dance := Some (fst (attempt_list env i k (rng_pos st) (io_pos st) ! j)),
                     rng_pos := snd (snd (attempt_list env i k (rng_pos st) (io_pos st) ! j)),
                     io_pos := io_pos st + j + 2,
                     current_dance_file :=
                       Some (fst (attempt_list env i k (rng_pos st) (io_pos st) ! j)),
                     current_dance_duration :=
                       get_dance_duration env (io_pos st + j + 1)
                         (fst (attempt_list env i k (rng_pos st) (io_pos st) ! j)),
                     current_dance_elapsed := 0,
                     current_intensity := Some i \<rparr>)"
  using j pass before
proof (induction j arbitrary: k st)
  case 0
  then obtain k' where k: "k = Suc k'" by (cases k) simp_all
  show ?case using "0.prems"(2) unfolding k
    by (subst retry_loop_step [OF pool]) (simp add: Let_def)
next
  case (Suc j)
  then obtain k' where k: "k = Suc k'" by (cases k) simp_all
  define c where "c = dance_pool env i ! (random env (rng_pos st) mod length (dance_pool env i))"
  define v where "v = dance_passes_filter env (io_pos st) c (Suc (rng_pos st))"
  define st0 where
    "st0 = st\<lparr> selected_dance := Some c, rng_pos := snd v, io_pos := Suc (io_pos st) \<rparr>"
  have unf: "attempt_list env i k (rng_pos st) (io_pos st) =
               (c, fst v, snd v) # attempt_list env i k' (rng_pos st0) (io_pos st0)"
    unfolding k by (simp add: Let_def c_def v_def st0_def)
  have nf: "\<not> fst v" using Suc.prems(3) unfolding unf by auto
  have j': "j < k'" using Suc.prems(1) k by simp
  have pass': "fst (snd (attempt_list env i k' (rng_pos st0) (io_pos st0) ! j))"
    using Suc.prems(2) unfolding unf by simp
  have before': "\<forall>j' < j. \<not> fst (snd (attempt_list env i k' (rng_pos st0) (io_pos st0) ! j'))"
  proof (intro allI impI)
    fix j' assume "j' < j"
    then have "Suc j' < Suc j" by simp
    with Suc.prems(3) have "\<not> fst (snd (attempt_list env i k (rng_pos st) (io_pos st) ! Suc j'))"
      by blast
    then show "\<not> fst (snd (attempt_list env i k' (rng_pos st0) (io_pos st0) ! j'))"
      unfolding unf by simp
  qed
  have "retry_loop env i k st = retry_loop env i k' st0"
    unfolding k using nf by (subst retry_loop_step [OF pool])
      (simp add: Let_def c_def v_def st0_def del: retry_loop.simps)
  also note Suc.IH [OF j' pass' before']
  finally show ?case
    unfolding unf by (simp add: st0_def)
qed

lemma nan_env_choose:
  "choose_dance nan_env LOW r = Inr (if r mod 2 = 0 then ''a.pkl'' else ''b.pkl'')"
  by (auto simp: choose_dance_def get_dances_by_intensity_def nan_env_def random_choice_def
      Let_def upt_rec numeral_2_eq_2 nth_Cons' mod_Suc)

lemma nan_env_filter:
  "dance = ''a.pkl'' \<or> dance = ''b.pkl'' \<Longrightarrow> dance_passes_filter nan_env t dance pos = (False, Suc pos)"
  by (auto simp: dance_passes_filter_def load_keypoint_file_def nan_env_def num_frames_of_def
      frame_at_def nd_index_def has_nan_def Let_def)

lemma nan_env_retry_step:
  "retry_loop nan_env LOW (Suc k) st =
     retry_loop nan_env LOW k
       (st\<lparr> selected_dance := Some (if random nan_env (rng_pos st) mod 2 = 0 then ''a.pkl'' else ''b.pkl''),
             rng_pos := Suc (Suc (rng_pos st)), io_pos := Suc (io_pos st) \<rparr>)"
  by (simp add: nan_env_choose nan_env_filter)

lemma nan_env_random: "random nan_env q = (if q = 20 then 1 else 0)"
  by (simp add: nan_env_def)

lemma nan_env_loop:
  "retry_loop nan_env LOW max_retries initial_locals =
     Inr (initial_locals\<lparr> selected_dance := Some ''a.pkl'', rng_pos := 20, io_pos := 10 \<rparr>)"
  unfolding max_retries_def
  by (simp add: eval_nat_numeral nan_env_retry_step nan_env_random initial_locals_def
      del: retry_loop.simps(2))

lemma nan_env_select:
  "select_new_dance nan_env LOW initial_locals =
       Inr (initial_locals\<lparr> selected_dance := Some ''a.pkl'', rng_pos := 21, io_pos := 11,
                             current_dance_file := Some ''b.pkl'',
                             current_dance_duration := 1 / 30,
                             current_dance_elapsed := 0,
                             current_intensity := Some LOW \<rparr>)"
proof -
  have dur: "get_dance_duration nan_env t ''b.pkl'' = 1 / 30" for t
    by (simp add: get_dance_duration_def load_keypoint_file_def nan_env_def
        normalize_keypoints_shape_def mediapipe_frames_def Let_def)
  show ?thesis
    using nan_env_loop
    by (simp add: select_new_dance_def nan_env_choose nan_env_random dur initial_locals_def)
qed

text \<open>
  Claim C2 says that after ten failed attempts the candidate picked last becomes the
  active clip. The code chooses once more: with two clips that both fail the filter and
  random draws that pick the first clip in every attempt and the second one afterwards,
  the tenth candidate is \<open>a.pkl\<close> and the active clip is \<open>b.pkl\<close>.
\<close>

theorem fallback_selection_counterexample:
  "retry_loop nan_env LOW max_retries initial_locals =
     Inr (initial_locals\<lparr> selected_dance := Some ''a.pkl'', rng_pos := 20, io_pos := 10 \<rparr>)
   \<and> current_dance_file (initial_locals\<lparr> selected_dance := Some ''a.pkl'', rng_pos := 20, io_pos := 10 \<rparr>)
       = None
   \<and> select_new_dance nan_env LOW initial_locals =
       Inr (initial_locals\<lparr> selected_dance := Some ''a.pkl'', rng_pos := 21, io_pos := 11,
                             current_dance_file := Some ''b.pkl'',
                             current_dance_duration := 1 / 30,
                             current_dance_elapsed := 0,
                             current_intensity := Some LOW \<rparr>)
   \<and> ''a.pkl'' \<noteq> ''b.pkl''"
  using nan_env_loop nan_env_select by (simp add: initial_locals_def)

text \<open>
  Claim C2 as amended, for a pool that is not empty (the clips of the target intensity,
  or the whole catalogue when there are none). When all ten attempts fail the filter,
  the active clip is a fresh choice from the same pool made with the next random
  number, the one after the last attempt's check, and it is accepted without a check:
  its duration and the intensity are recorded and the elapsed time is 0; the candidate
  of the tenth attempt stays in \<^verbatim>\<open>selected_dance\<close> and is not the active clip unless the
  fresh choice picks it again. When attempt \<open>j\<close> is the first to pass the filter, its
  candidate becomes the active clip and no later attempt is made.
\<close>

theorem fallback_selection:
  assumes pool: "dance_pool env i \<noteq> []"
  shows "(let attempts = attempt_list env i max_retries (rng_pos st) (io_pos st);
              next_draw = snd (snd (last attempts));
              fresh = dance_pool env i ! (random env next_draw mod length (dance_pool env i))
          in ((\<forall>a \<in> set attempts. \<not> fst (snd a)) \<longrightarrow>
                select_new_dance env i st =
                  Inr (st\<lparr> selected_dance := Some (fst (last attempts)),
                            rng_pos := Suc next_draw,
                            io_pos := io_pos st + max_retries + 1,
                            current_dance_file := Some fresh,
                            current_dance_duration :=
                              get_dance_duration env (io_pos st + max_retries) fresh,
                            current_dance_elapsed := 0,
                            current_intensity := Some i \<rparr>))
            \<and> (j < max_retries \<and> fst (snd (attempts ! j))
                 \<and> (\<forall>j' < j. \<not> fst (snd (attempts ! j'))) \<longrightarrow>
                select_new_dance env i st =
                  Inr (st\<lparr> selected_dance := Some (fst (attempts ! j)),
                            rng_pos := snd (snd (attempts ! j)),
                            io_pos := io_pos st + j + 2,
                            current_dance_file := Some (fst (attempts ! j)),
                            current_dance_duration :=
                              get_dance_duration env (io_pos st + j + 1) (fst (attempts ! j)),
                            current_dance_elapsed := 0,
                            current_intensity := Some i \<rparr>)))"
proof -
  define attempts where "attempts = attempt_list env i max_retries (rng_pos st) (io_pos st)"
  have a: "select_new_dance env i st =
             Inr (st\<lparr> selected_dance := Some (fst (last attempts)),
                       rng_pos := Suc (snd (snd (last attempts))),
                       io_pos := io_pos st + max_retries + 1,
                       current_dance_file :=
                         Some (dance_pool env i
                                 ! (random env (snd (snd (last attempts))) mod length (dance_pool env i))),
                       current_dance_duration :=
                         get_dance_duration env (io_pos st + max_retries)
                           (dance_pool env i
                              ! (random env (snd (snd (last attempts))) mod length (dance_pool env i))),
                       current_dance_elapsed := 0,
                       current_intensity := Some i \<rparr>)"
    if fail: "\<forall>a \<in> set attempts. \<not> fst (snd a)"
  proof -
    have "retry_loop env i max_retries (st\<lparr> current_dance_file := None \<rparr>) =
            Inr (st\<lparr> current_dance_file := None,
                      selected_dance := Some (fst (last attempts)),
                      rng_pos := snd (snd (last attempts)),
                      io_pos := io_pos st + max_retries \<rparr>)"
      using retry_loop_all_fail [OF pool, of 9 "st\<lparr> current_dance_file := None \<rparr>"] fail
      by (simp add: attempts_def max_retries_def del: retry_loop.simps attempt_list.simps)
    then show ?thesis
      using pool by (simp add: select_new_dance_def choose_dance_pool random_choice_def)
  qed
  have b: "select_new_dance env i st =
             Inr (st\<lparr> selected_dance := Some (fst (attempts ! j)),
                       rng_pos := snd (snd (attempts ! j)),
                       io_pos := io_pos st + j + 2,
                       current_dance_file := Some (fst (attempts ! j)),
                       current_dance_duration :=
                         get_dance_duration env (io_pos st + j + 1) (fst (attempts ! j)),
                       current_dance_elapsed := 0,
                       current_intensity := Some i \<rparr>)"
    if j: "j < max_retries" and pass: "fst (snd (attempts ! j))"
      and before: "\<forall>j' < j. \<not> fst (snd (attempts ! j'))"
  proof -
    have "retry_loop env i max_retries (st\<lparr> current_dance_file := None \<rparr>) =
            Inr (st\<lparr> selected_dance := Some (fst (attempts ! j)),
                      rng_pos := snd (snd (attempts ! j)),
                      io_pos := io_pos st + j + 2,
                      current_dance_file := Some (fst (attempts ! j)),
                      current_dance_duration :=
                        get_dance_duration env (io_pos st + j + 1) (fst (attempts ! j)),
                      current_dance_elapsed := 0,
                      current_intensity := Some i \<rparr>)"
      using retry_loop_first_pass [OF pool j, of "st\<lparr> current_dance_file := None \<rparr>"] pass before
      by (simp add: attempts_def del: retry_loop.simps attempt_list.simps)
    then show ?thesis by (simp add: select_new_dance_def)
  qed
  show ?thesis
    unfolding Let_def attempts_def [symmetric] using a b by blast
qed

lemma count_nan_samples_clean:
  assumes "\<forall>k < n. \<exists>p. frame_at raw k = Inr p \<and> \<not> has_nan p" and "0 < n"
  shows "count_nan_samples env raw n k pos c = (Inr c, pos + k)"
proof (induction k arbitrary: pos)
  case 0
  show ?case by simp
next
  case (Suc k)
  have "random env pos mod n < n" using assms(2) by simp
  with assms(1) obtain p where "frame_at raw (random env pos mod n) = Inr p" "\<not> has_nan p"
    by blast
  then show ?case using Suc by (simp add: Let_def)
qed

lemma flaky_load:
  "load_keypoint_file (flaky_env\<lparr> read_ok := ok \<rparr>) t ''a.pkl'' = (if ok t then Some flaky_clip else None)"
  by (simp add: load_keypoint_file_def flaky_env_def)

lemma flaky_frames: "num_frames_of flaky_clip = Some 3"
  by (simp add: num_frames_of_def flaky_clip_def)

lemma flaky_frame_at:
  "k < 3 \<Longrightarrow> frame_at flaky_clip k = Inr (NdArray [1, 1] [Num (1 + real k)])"
proof -
  assume "k < 3"
  then have "k = 0 \<or> k = 1 \<or> k = 2" by auto
  then show ?thesis by (auto simp: frame_at_def nd_index_def flaky_clip_def)
qed

lemma flaky_clean: "\<forall>k < 3. \<exists>p. frame_at flaky_clip k = Inr p \<and> \<not> has_nan p"
  using flaky_frame_at by (simp add: has_nan_def)

lemma flaky_filter:
  "dance_passes_filter (flaky_env\<lparr> read_ok := ok \<rparr>) t ''a.pkl'' pos =
     (if ok t then (True, pos + 3) else (False, pos))"
  by (simp add: dance_passes_filter_def flaky_load flaky_frames Let_def
      count_nan_samples_clean [OF flaky_clean])

lemma flaky_pool: "dance_pool (flaky_env\<lparr> read_ok := ok \<rparr>) MEDIUM = [''a.pkl'']"
  by (simp add: dance_pool_def get_dances_by_intensity_def flaky_env_def Let_def)

lemma flaky_attempts:
  "attempt_list (flaky_env\<lparr> read_ok := (\<lambda>t. 0 < t) \<rparr>) MEDIUM max_retries 0 0 =
     (''a.pkl'', False, 1) # (''a.pkl'', True, 5)
       # attempt_list (flaky_env\<lparr> read_ok := (\<lambda>t. 0 < t) \<rparr>) MEDIUM 8 5 (Suc (Suc 0))"
proof -
  have m: "max_retries = Suc (Suc 8)" by (simp add: max_retries_def)
  show ?thesis
    unfolding m by (simp only: attempt_list.simps Let_def flaky_pool) (simp add: flaky_filter)
qed

lemma flaky_duration:
  "ok t \<Longrightarrow> get_dance_duration (flaky_env\<lparr> read_ok := ok \<rparr>) t ''a.pkl'' = 1 / 10"
  by (simp add: get_dance_duration_def flaky_load normalize_keypoints_shape_def
      mediapipe_frames_def Let_def flaky_clip_def)

lemma nan_env_pool: "dance_pool nan_env LOW = [''a.pkl'', ''b.pkl'']"
  by (simp add: dance_pool_def get_dances_by_intensity_def nan_env_def Let_def upt_rec
      numeral_2_eq_2)

lemma nan_env_attempts:
  "attempt_list nan_env LOW max_retries 0 0 =
     [(''a.pkl'', False, 2), (''a.pkl'', False, 4), (''a.pkl'', False, 6), (''a.pkl'', False, 8),
      (''a.pkl'', False, 10), (''a.pkl'', False, 12), (''a.pkl'', False, 14),
      (''a.pkl'', False, 16), (''a.pkl'', False, 18), (''a.pkl'', False, 20)]"
  unfolding max_retries_def
  by (simp add: eval_nat_numeral nan_env_pool nan_env_filter nan_env_random Let_def)

lemma nan_env_duration: "get_dance_duration nan_env t ''b.pkl'' = 1 / 30"
  by (simp add: get_dance_duration_def load_keypoint_file_def nan_env_def
      normalize_keypoints_shape_def mediapipe_frames_def Let_def)

theorem fallback_selection_witness:
  "select_new_dance nan_env LOW initial_locals =
       Inr (initial_locals\<lparr> selected_dance := Some ''a.pkl'', rng_pos := 21, io_pos := 11,
                             current_dance_file := Some ''b.pkl'',
                             current_dance_duration := 1 / 30,
                             current_dance_elapsed := 0,
                             current_intensity := Some LOW \<rparr>)
   \<and> select_new_dance (flaky_env\<lparr> read_ok := (\<lambda>t. 0 < t) \<rparr>) MEDIUM initial_locals =
       Inr (initial_locals\<lparr> selected_dance := Some ''a.pkl'', rng_pos := 5, io_pos := 3,
                             current_dance_file := Some ''a.pkl'',
                             current_dance_duration := 1 / 10,
                             current_dance_elapsed := 0,
                             current_intensity := Some MEDIUM \<rparr>)"
proof -
  have pos: "rng_pos initial_locals = 0" "io_pos initial_locals = 0"
    by (simp_all add: initial_locals_def)
  have a: "select_new_dance nan_env LOW initial_locals =
       Inr (initial_locals\<lparr> selected_dance := Some ''a.pkl'', rng_pos := 21, io_pos := 11,
                             current_dance_file := Some ''b.pkl'',
                             current_dance_duration := 1 / 30,
                             current_dance_elapsed := 0,
                             current_intensity := Some LOW \<rparr>)"
    using fallback_selection [of nan_env LOW initial_locals]
    unfolding Let_def pos nan_env_attempts
    by (simp add: nan_env_pool nan_env_random nan_env_duration max_retries_def)
  have b: "select_new_dance (flaky_env\<lparr> read_ok := (\<lambda>t. 0 < t) \<rparr>) MEDIUM initial_locals =
       Inr (initial_locals\<lparr> selected_dance := Some ''a.pkl'', rng_pos := 5, io_pos := 3,
                             current_dance_file := Some ''a.pkl'',
                             current_dance_duration := 1 / 10,
                             current_dance_elapsed := 0,
                             current_intensity := Some MEDIUM \<rparr>)"
    using fallback_selection [of "flaky_env\<lparr> read_ok := (\<lambda>t. 0 < t) \<rparr>" MEDIUM initial_locals 1]
    unfolding Let_def pos flaky_attempts
    by (simp add: flaky_pool flaky_duration max_retries_def)
  show ?thesis using a b by simp
qed

subsection \<open>What a segment appends to the output\<close>

lemma retry_loop_keeps:
  "retry_loop env i k st = Inr st1 \<Longrightarrow>
     pose_sequence st1 = pose_sequence st \<and> next_frame_number st1 = next_frame_number st"
proof (induction k arbitrary: st)
  case 0
  then show ?case by simp
next
  case (Suc k)
  then show ?case
    by (fastforce split: sum.splits prod.splits bool.splits)
qed

lemma select_new_dance_keeps:
  "select_new_dance env i st = Inr st1 \<Longrightarrow>
     pose_sequence st1 = pose_sequence st \<and> next_frame_number st1 = next_frame_number st"
  by (auto simp: select_new_dance_def split: sum.splits option.splits dest!: retry_loop_keeps)

lemma emit_frame_record:
  "\<exists>r cand t. emit_frame env fr fd s0 i k st =
       st\<lparr> pose_sequence := pose_sequence st @ [r],
           next_frame_number := Suc (next_frame_number st),
           candidate_pose := cand, io_pos := t \<rparr>
     \<and> frame_number r = next_frame_number st
     \<and> time r = s0 + real k / fr + (if fd > 0 then fd else 0)
     \<and> dance_file r = current_dance_file st
     \<and> resolve_pose env (io_pos st) (current_dance_file st)
          (py_int (current_dance_elapsed st * fr) + int k) (candidate_pose st)
         = ((pose_data r, dance_frame r, cand), t)"
proof -
  obtain pd df cand t where rp: "resolve_pose env (io_pos st) (current_dance_file st)
          (py_int (current_dance_elapsed st * fr) + int k) (candidate_pose st) = ((pd, df, cand), t)"
    by (metis prod.exhaust)
  define r where "r = \<lparr> frame_number = next_frame_number st,
                          time = s0 + real k / fr + (if fd > 0 then fd else 0),
                          dance_file = current_dance_file st,
                          dance_frame = df,
                          intensity = intensity_value i,
                          pose_data = pd \<rparr>"
  have "emit_frame env fr fd s0 i k st =
       st\<lparr> pose_sequence := pose_sequence st @ [r],
           next_frame_number := Suc (next_frame_number st),
           candidate_pose := cand, io_pos := t \<rparr>"
    using rp by (simp add: emit_frame_def Let_def r_def)
  then show ?thesis
    using rp by (intro exI [of _ r] exI [of _ cand] exI [of _ t]) (simp add: r_def)
qed

lemma segment_frames_numbered:
  "\<exists>rs. pose_sequence (segment_frames env fr fd s0 i idxs st) = pose_sequence st @ rs
        \<and> next_frame_number (segment_frames env fr fd s0 i idxs st)
            = next_frame_number st + length idxs
        \<and> length rs = length idxs
        \<and> (\<forall>j < length idxs. frame_number (rs ! j) = next_frame_number st + j
              \<and> time (rs ! j) = s0 + real (idxs ! j) / fr + (if fd > 0 then fd else 0))"
proof (induction idxs arbitrary: st)
  case Nil
  show ?case by simp
next
  case (Cons k idxs)
  obtain r cand t where e: "emit_frame env fr fd s0 i k st =
       st\<lparr> pose_sequence := pose_sequence st @ [r],
           next_frame_number := Suc (next_frame_number st),
           candidate_pose := cand, io_pos := t \<rparr>"
     and r: "frame_number r = next_frame_number st"
            "time r = s0 + real k / fr + (if fd > 0 then fd else 0)"
    using emit_frame_record [of env fr fd s0 i k st] by blast
  define st1 where "st1 = emit_frame env fr fd s0 i k st"
  from Cons [of st1] obtain rs where
    rs: "pose_sequence (segment_frames env fr fd s0 i idxs st1) = pose_sequence st1 @ rs"
        "next_frame_number (segment_frames env fr fd s0 i idxs st1) = next_frame_number st1 + length idxs"
        "length rs = length idxs"
        "\<forall>j < length idxs. frame_number (rs ! j) = next_frame_number st1 + j
              \<and> time (rs ! j) = s0 + real (idxs ! j) / fr + (if fd > 0 then fd else 0)"
    by blast
  have ps1: "pose_sequence st1 = pose_sequence st @ [r]"
    and n1: "next_frame_number st1 = Suc (next_frame_number st)"
    using e by (simp_all add: st1_def)
  have "\<forall>j < length (k # idxs). frame_number ((r # rs) ! j) = next_frame_number st + j
              \<and> time ((r # rs) ! j) = s0 + real ((k # idxs) ! j) / fr + (if fd > 0 then fd else 0)"
  proof (intro allI impI)
    fix j assume "j < length (k # idxs)"
    then show "frame_number ((r # rs) ! j) = next_frame_number st + j
              \<and> time ((r # rs) ! j) = s0 + real ((k # idxs) ! j) / fr + (if fd > 0 then fd else 0)"
      using r rs(4) n1 by (cases j) auto
  qed
  then show ?case
    using rs ps1 n1 by (intro exI [of _ "r # rs"]) (simp add: st1_def)
qed

lemma process_segment_split:
  assumes "process_segment self env lo hi fr fd ((s0, e0), (na, nb)) st = Inr st'"
  shows "\<exists>st1 i. pose_sequence st1 = pose_sequence st
           \<and> next_frame_number st1 = next_frame_number st
           \<and> pose_sequence st' =
               pose_sequence (segment_frames env fr fd s0 i [0 ..< nat (py_int ((e0 - s0) * fr))] st1)
           \<and> next_frame_number st' =
               next_frame_number (segment_frames env fr fd s0 i [0 ..< nat (py_int ((e0 - s0) * fr))] st1)"
proof -
  define i where "i = classify_intensity (calculate_intensity_score self na nb) lo hi"
  obtain need t where nd: "need_new_dance env fr i st = (need, t)" by (metis prod.exhaust)
  define sel where
    "sel = (if need then select_new_dance env i (st\<lparr> io_pos := t \<rparr>) else Inr (st\<lparr> io_pos := t \<rparr>))"
  define frames where
    "frames = (\<lambda>st1. segment_frames env fr fd s0 i [0 ..< nat (py_int ((e0 - s0) * fr))]
                       (st1\<lparr> seg_duration := Some (e0 - s0) \<rparr>))"
  have "(case sel of
           Inl e \<Rightarrow> Inl e
         | Inr st1 \<Rightarrow> Inr ((frames st1)\<lparr> current_dance_elapsed :=
                                           current_dance_elapsed (frames st1) + (e0 - s0) \<rparr>)) = Inr st'"
    using assms nd unfolding process_segment_def Let_def i_def sel_def frames_def
    by (simp cong: sum.case_cong)
  then obtain st1 where sel1: "sel = Inr st1"
    and st': "st' = (frames st1)\<lparr> current_dance_elapsed := current_dance_elapsed (frames st1) + (e0 - s0) \<rparr>"
    by (cases sel) auto
  have keep: "pose_sequence st1 = pose_sequence st \<and> next_frame_number st1 = next_frame_number st"
    using sel1 select_new_dance_keeps [of env i "st\<lparr> io_pos := t \<rparr>" st1]
    by (auto simp: sel_def split: if_splits)
  show ?thesis
    using keep st'
    by (intro exI [of _ "st1\<lparr> seg_duration := Some (e0 - s0) \<rparr>"] exI [of _ i])
       (simp add: frames_def)
qed

lemma process_segment_numbered:
  assumes "process_segment self env lo hi fr fd ((s0, e0), (na, nb)) st = Inr st'"
  shows "\<exists>rs. pose_sequence st' = pose_sequence st @ rs
           \<and> next_frame_number st' = next_frame_number st + length rs
           \<and> length rs = nat (py_int ((e0 - s0) * fr))
           \<and> (\<forall>j < length rs. frame_number (rs ! j) = next_frame_number st + j
                 \<and> time (rs ! j) = s0 + real j / fr + (if fd > 0 then fd else 0))"
proof -
  from process_segment_split [OF assms] obtain st1 i where
    keep: "pose_sequence st1 = pose_sequence st" "next_frame_number st1 = next_frame_number st"
    and st': "pose_sequence st' =
               pose_sequence (segment_frames env fr fd s0 i [0 ..< nat (py_int ((e0 - s0) * fr))] st1)"
             "next_frame_number st' =
               next_frame_number (segment_frames env fr fd s0 i [0 ..< nat (py_int ((e0 - s0) * fr))] st1)"
    by blast
  from segment_frames_numbered [of env fr fd s0 i "[0 ..< nat (py_int ((e0 - s0) * fr))]" st1]
  obtain rs where
    rs: "pose_sequence (segment_frames env fr fd s0 i [0 ..< nat (py_int ((e0 - s0) * fr))] st1)
           = pose_sequence st1 @ rs"
        "next_frame_number (segment_frames env fr fd s0 i [0 ..< nat (py_int ((e0 - s0) * fr))] st1)
           = next_frame_number st1 + nat (py_int ((e0 - s0) * fr))"
        "length rs = nat (py_int ((e0 - s0) * fr))"
        "\<forall>j < nat (py_int ((e0 - s0) * fr)). frame_number (rs ! j) = next_frame_number st1 + j
              \<and> time (rs ! j) = s0 + real ([0 ..< nat (py_int ((e0 - s0) * fr))] ! j) / fr
                    + (if fd > 0 then fd else 0)"
    by auto
  show ?thesis
    using rs keep st' by (intro exI [of _ rs]) simp
qed

lemma segment_times:
  assumes "s0 < e0" and "j < nat (py_int ((e0 - s0) * fr))"
  shows "0 < fr \<and> real j / fr < e0 - s0"
proof -
  define x where "x = (e0 - s0) * fr"
  have pos: "0 < py_int x" using assms(2) by (simp add: x_def)
  have x0: "0 < x"
  proof (rule ccontr)
    assume "\<not> 0 < x"
    then have "x \<le> 0" by simp
    then have "py_int x \<le> 0" by (auto simp: py_int_def ceiling_le_iff)
    with pos show False by simp
  qed
  then have fr: "0 < fr" using assms(1) by (simp add: x_def zero_less_mult_iff)
  have "py_int x = \<lfloor>x\<rfloor>" using x0 by (simp add: py_int_def)
  then have "int j < \<lfloor>x\<rfloor>" using assms(2) by (simp add: x_def)
  then have "real j < x" by (simp add: less_floor_iff) 
  then have "real j / fr < e0 - s0" using fr by (simp add: x_def field_simps)
  with fr show ?thesis by simp
qed


lemma process_segment_ordered:
  assumes run: "process_segment self env lo hi fr fd ((s0, e0), (na, nb)) st = Inr st'"
    and len: "next_frame_number st = length (pose_sequence st)"
    and num: "\<forall>j < length (pose_sequence st). frame_number (pose_sequence st ! j) = j"
    and srt: "sorted (map time (pose_sequence st))"
    and bnd: "\<forall>r \<in> set (pose_sequence st). time r \<le> s0 + (if fd > 0 then fd else 0)"
    and pos: "s0 < e0"
  shows "next_frame_number st' = length (pose_sequence st')
       \<and> (\<forall>j < length (pose_sequence st'). frame_number (pose_sequence st' ! j) = j)
       \<and> sorted (map time (pose_sequence st'))
       \<and> (\<forall>r \<in> set (pose_sequence st'). time r \<le> e0 + (if fd > 0 then fd else 0))"
proof -
  define dl where "dl = (if fd > 0 then fd else 0)"
  from process_segment_numbered [OF run] obtain rs where
    ps: "pose_sequence st' = pose_sequence st @ rs"
    and nx: "next_frame_number st' = next_frame_number st + length rs"
    and lr: "length rs = nat (py_int ((e0 - s0) * fr))"
    and rs: "\<forall>j < length rs. frame_number (rs ! j) = next_frame_number st + j
                 \<and> time (rs ! j) = s0 + real j / fr + dl"
    unfolding dl_def by blast
  have tm: "0 < fr \<and> real j / fr < e0 - s0" if "j < length rs" for j
    using segment_times [OF pos, of j fr] that lr by simp
  have a: "next_frame_number st' = length (pose_sequence st')"
    using ps nx len by simp
  have b: "\<forall>j < length (pose_sequence st'). frame_number (pose_sequence st' ! j) = j"
  proof (intro allI impI)
    fix j assume j: "j < length (pose_sequence st')"
    show "frame_number (pose_sequence st' ! j) = j"
    proof (cases "j < length (pose_sequence st)")
      case True
      then show ?thesis using num ps by (simp add: nth_append)
    next
      case False
      then have "j - length (pose_sequence st) < length rs" using j ps by simp
      then show ?thesis using rs False len ps by (simp add: nth_append)
    qed
  qed
  have lo_rs: "s0 + dl \<le> time r \<and> time r \<le> e0 + dl" if "r \<in> set rs" for r
  proof -
    from that obtain j where j: "j < length rs" "r = rs ! j" by (auto simp: in_set_conv_nth)
    have "0 \<le> real j / fr" using tm [OF j(1)] by simp
    then show ?thesis using rs j tm [OF j(1)] by simp
  qed
  have srt_rs: "sorted (map time rs)"
  proof (rule sorted_iff_nth_mono [THEN iffD2], intro allI impI)
    fix j k assume jk: "j \<le> k" "k < length (map time rs)"
    then have k: "k < length rs" and j: "j < length rs" by simp_all
    have "real j / fr \<le> real k / fr" using tm [OF k] jk(1) by (simp add: divide_right_mono)
    then show "map time rs ! j \<le> map time rs ! k" using rs j k by simp
  qed
  have c: "sorted (map time (pose_sequence st'))"
    unfolding ps using srt srt_rs bnd lo_rs
    by (fastforce simp: sorted_append dl_def)
  have d: "\<forall>r \<in> set (pose_sequence st'). time r \<le> e0 + dl"
    unfolding ps using bnd lo_rs pos by (fastforce simp: dl_def)
  show ?thesis using a b c d by (simp add: dl_def)
qed

lemma run_segments_ordered:
  assumes "run_segments self env lo hi fr fd segs st = Inr st'"
    and "next_frame_number st = length (pose_sequence st)"
    and "\<forall>j < length (pose_sequence st). frame_number (pose_sequence st ! j) = j"
    and "sorted (map time (pose_sequence st))"
    and "\<forall>r \<in> set (pose_sequence st). \<forall>seg \<in> set segs.
           time r \<le> fst (fst seg) + (if fd > 0 then fd else 0)"
    and "\<forall>seg \<in> set segs. fst (fst seg) < snd (fst seg)"
    and "sorted_wrt (\<lambda>a b. snd (fst a) \<le> fst (fst b)) segs"
  shows "(\<forall>j < length (pose_sequence st'). frame_number (pose_sequence st' ! j) = j)
       \<and> sorted (map time (pose_sequence st'))"
  using assms
proof (induction segs arbitrary: st)
  case Nil
  then show ?case by simp
next
  case (Cons seg segs)
  obtain s0 e0 na nb where seg: "seg = ((s0, e0), (na, nb))" by (metis prod.exhaust)
  from Cons.prems(1) obtain st1 where
    p1: "process_segment self env lo hi fr fd ((s0, e0), (na, nb)) st = Inr st1"
    and r1: "run_segments self env lo hi fr fd segs st1 = Inr st'"
    by (auto simp: seg split: sum.splits)
  have pos: "s0 < e0" using Cons.prems(6) by (simp add: seg)
  have bnd: "\<forall>r \<in> set (pose_sequence st). time r \<le> s0 + (if fd > 0 then fd else 0)"
    using Cons.prems(5) by (simp add: seg)
  note o = process_segment_ordered [OF p1 Cons.prems(2) Cons.prems(3) Cons.prems(4) bnd pos]
  have nxt: "\<forall>seg' \<in> set segs. e0 \<le> fst (fst seg')"
    using Cons.prems(7) by (simp add: seg)
  have bnd1: "\<forall>r \<in> set (pose_sequence st1). \<forall>seg' \<in> set segs.
           time r \<le> fst (fst seg') + (if fd > 0 then fd else 0)"
    using o nxt by fastforce
  show ?case
    using Cons.IH [OF r1 _ _ _ bnd1] o Cons.prems(6) Cons.prems(7) by simp
qed

lemma song_windows_pos: "\<forall>w \<in> set (song_windows d). fst w < snd w"
proof
  fix w assume "w \<in> set (song_windows d)"
  then obtain i where i: "i < nat \<lceil>d / 5\<rceil>" and w: "w = (5 * real i, min (5 * real i + 5) d)"
    by (auto simp: song_windows_def)
  from i have "int i < \<lceil>d / 5\<rceil>" by simp
  then have "real i < d / 5" by (simp add: less_ceiling_iff)
  then show "fst w < snd w" using w by simp
qed

lemma song_windows_chain: "sorted_wrt (\<lambda>a b. snd a \<le> fst b) (song_windows d)"
proof -
  have "sorted_wrt (\<lambda>i j. min (5 * real i + 5) d \<le> 5 * real j) [0 ..< nat \<lceil>d / 5\<rceil>]"
  proof (rule sorted_wrt_mono_rel [OF _ sorted_wrt_upt])
    fix i j :: nat assume "i < j"
    then have "real i + 1 \<le> real j" by simp
    then show "min (5 * real i + 5) d \<le> 5 * real j" by simp
  qed
  then show ?thesis by (simp add: song_windows_def sorted_wrt_map)
qed

lemma sorted_wrt_zip_fst:
  "sorted_wrt P xs \<Longrightarrow> sorted_wrt (\<lambda>a b. P (fst a) (fst b)) (zip xs ys)"
proof (induction xs arbitrary: ys)
  case Nil
  show ?case by simp
next
  case (Cons x xs)
  show ?case
  proof (cases ys)
    case Nil
    then show ?thesis by simp
  next
    case (Cons y ys')
    then show ?thesis
      using Cons.prems Cons.IH [of ys'] by (auto dest: set_zip_leftD)
  qed
qed

subsection \<open>Two runs evaluated\<close>

lemma song_windows_one: "song_windows 1 = [(0, 1)]"
proof -
  have "\<lceil>1 / 5 :: real\<rceil> = 1" by (rule ceiling_unique) simp_all
  then show ?thesis by (simp add: song_windows_def)
qed

lemma retry_loop_first:
  "retry_loop env i max_retries st =
     (case choose_dance env i (random env (rng_pos st)) of
        Inl e \<Rightarrow> Inl e
      | Inr dance \<Rightarrow>
          (case dance_passes_filter env (io_pos st) dance (Suc (rng_pos st)) of
             (True, pos') \<Rightarrow>
               Inr (st\<lparr> selected_dance := Some dance,
                        rng_pos := pos',
                        io_pos := Suc (Suc (io_pos st)),
                        current_dance_file := Some dance,
                        current_dance_duration := get_dance_duration env (Suc (io_pos st)) dance,
                        current_dance_elapsed := 0,
                        current_intensity := Some i \<rparr>)
           | (False, pos') \<Rightarrow>
               retry_loop env i 9
                 (st\<lparr> selected_dance := Some dance, rng_pos := pos', io_pos := Suc (io_pos st) \<rparr>)))"
proof -
  have m: "max_retries = Suc 9" by (simp add: max_retries_def)
  show ?thesis unfolding m by (simp only: retry_loop.simps)
qed

lemma flaky_env_reads: "flaky_env = flaky_env\<lparr> read_ok := (\<lambda>t. t < 5) \<rparr>"
  by (simp add: flaky_env_def)

lemma flaky_choose: "choose_dance (flaky_env\<lparr> read_ok := ok \<rparr>) MEDIUM r = Inr ''a.pkl''"
  by (simp add: choose_dance_def get_dances_by_intensity_def flaky_env_def random_choice_def Let_def)

lemma flaky_select:
  "ok 0 \<Longrightarrow> ok (Suc 0) \<Longrightarrow>
   select_new_dance (flaky_env\<lparr> read_ok := ok \<rparr>) MEDIUM initial_locals =
     Inr (initial_locals\<lparr> selected_dance := Some ''a.pkl'', rng_pos := 4, io_pos := 2,
                           current_dance_file := Some ''a.pkl'',
                           current_dance_duration := 1 / 10,
                           current_dance_elapsed := 0,
                           current_intensity := Some MEDIUM \<rparr>)"
  by (simp add: select_new_dance_def retry_loop_first flaky_choose flaky_filter flaky_duration
      initial_locals_def)

lemma flaky_resolve:
  "resolve_pose (flaky_env\<lparr> read_ok := ok \<rparr>) t (Some ''a.pkl'') df cand =
     (if ok t
      then ((Some (NdArray [1, 1] [Num (1 + real (nat (df mod 3)))]), df mod 3,
             Some (NdArray [1, 1] [Num (1 + real (nat (df mod 3)))])), Suc t)
      else ((None, df, cand), Suc t))"
proof -
  have k: "nat (df mod 3) < 3" by (simp add: nat_less_iff)
  show ?thesis
    using flaky_frame_at [OF k] flaky_frames
    by (simp add: resolve_pose_def flaky_load resolve_loaded_def num_frames_or_one_def
        Let_def has_nan_def)
qed

lemma flaky_process:
  assumes "ok 0" "ok (Suc 0)"
  shows "process_segment default_sampler (flaky_env\<lparr> read_ok := ok \<rparr>) (3 / 10) (7 / 10) 5 0
               ((0, 1), (1 / 2, 3 / 7)) initial_locals =
             Inr ((segment_frames (flaky_env\<lparr> read_ok := ok \<rparr>) 5 0 0 MEDIUM [0, 1, 2, 3, 4]
                    (initial_locals\<lparr> selected_dance := Some ''a.pkl'', rng_pos := 4, io_pos := 2,
                           current_dance_file := Some ''a.pkl'',
                           current_dance_duration := 1 / 10,
                           current_dance_elapsed := 0,
                           current_intensity := Some MEDIUM,
                           seg_duration := Some 1 \<rparr>))
                  \<lparr> current_dance_elapsed :=
                      current_dance_elapsed
                        (segment_frames (flaky_env\<lparr> read_ok := ok \<rparr>) 5 0 0 MEDIUM [0, 1, 2, 3, 4]
                    (initial_locals\<lparr> selected_dance := Some ''a.pkl'', rng_pos := 4, io_pos := 2,
                           current_dance_file := Some ''a.pkl'',
                           current_dance_duration := 1 / 10,
                           current_dance_elapsed := 0,
                           current_intensity := Some MEDIUM,
                           seg_duration := Some 1 \<rparr>)) + 1 \<rparr>)"
proof -
  have cl: "classify_intensity (calculate_intensity_score default_sampler (1 / 2) (3 / 7)) (3 / 10) (7 / 10)
              = MEDIUM"
    by (simp add: classify_intensity_def calculate_intensity_score_def default_sampler_def)
  have nd: "need_new_dance (flaky_env\<lparr> read_ok := ok \<rparr>) 5 MEDIUM initial_locals = (True, 0)"
    by (simp add: need_new_dance_def initial_locals_def)
  have io: "initial_locals\<lparr> io_pos := 0 \<rparr> = initial_locals" by (simp add: initial_locals_def)
  have up: "[0 ..< nat (py_int ((1 - 0) * 5))] = [0, 1, 2, 3, 4]"
    by (simp add: py_int_def upt_rec)
  show ?thesis
    unfolding process_segment_def Let_def prod.case cl nd io up flaky_select [OF assms]
    by (simp del: segment_frames.simps)
qed

lemma flaky_sample:
  assumes "ok 0" "ok (Suc 0)"
  shows "sample_dance_moves_for_song default_sampler (flaky_env\<lparr> read_ok := ok \<rparr>)
           (3 / 10) (7 / 10) 5 0 (Some 1) =
         pose_sequence
           (segment_frames (flaky_env\<lparr> read_ok := ok \<rparr>) 5 0 0 MEDIUM [0, 1, 2, 3, 4]
                    (initial_locals\<lparr> selected_dance := Some ''a.pkl'', rng_pos := 4, io_pos := 2,
                           current_dance_file := Some ''a.pkl'',
                           current_dance_duration := 1 / 10,
                           current_dance_elapsed := 0,
                           current_intensity := Some MEDIUM,
                           seg_duration := Some 1 \<rparr>))"
proof -
  have f1: "collect_features (flaky_env\<lparr> read_ok := ok \<rparr>) [(0, 1)] = Some ([1], [120])"
    by (simp add: flaky_env_def)
  have n1: "normalize_features [1] [120] = ([1 / 2], [3 / 7])"
    by (simp add: normalize_features_def)
  have audio: "intensity_mappings (flaky_env\<lparr> read_ok := ok \<rparr>) \<noteq> []"
    "load_audio (flaky_env\<lparr> read_ok := ok \<rparr>) = Some (1, 1)"
    by (simp_all add: flaky_env_def)
  show ?thesis
    unfolding sample_dance_moves_for_song_def
    using audio
    by (simp add: song_windows_one f1 n1 flaky_process [OF assms] del: segment_frames.simps collect_features.simps)
qed

lemma flaky_run:
  "sample_dance_moves_for_song default_sampler flaky_env (3 / 10) (7 / 10) 5 0 (Some 1) =
     [\<lparr> frame_number = 0, time = 0, dance_file = Some ''a.pkl'', dance_frame = 0,
        intensity = ''medium'', pose_data = Some (NdArray [1, 1] [Num 1]) \<rparr>,
      \<lparr> frame_number = 1, time = 1 / 5, dance_file = Some ''a.pkl'', dance_frame = 1,
        intensity = ''medium'', pose_data = Some (NdArray [1, 1] [Num 2]) \<rparr>,
      \<lparr> frame_number = 2, time = 2 / 5, dance_file = Some ''a.pkl'', dance_frame = 2,
        intensity = ''medium'', pose_data = Some (NdArray [1, 1] [Num 3]) \<rparr>,
      \<lparr> frame_number = 3, time = 3 / 5, dance_file = Some ''a.pkl'', dance_frame = 3,
        intensity = ''medium'', pose_data = None \<rparr>,
      \<lparr> frame_number = 4, time = 4 / 5, dance_file = Some ''a.pkl'', dance_frame = 4,
        intensity = ''medium'', pose_data = None \<rparr>]"
proof -
  have "sample_dance_moves_for_song default_sampler (flaky_env\<lparr> read_ok := (\<lambda>t. t < 5) \<rparr>)
           (3 / 10) (7 / 10) 5 0 (Some 1) =
     [\<lparr> frame_number = 0, time = 0, dance_file = Some ''a.pkl'', dance_frame = 0,
        intensity = ''medium'', pose_data = Some (NdArray [1, 1] [Num 1]) \<rparr>,
      \<lparr> frame_number = 1, time = 1 / 5, dance_file = Some ''a.pkl'', dance_frame = 1,
        intensity = ''medium'', pose_data = Some (NdArray [1, 1] [Num 2]) \<rparr>,
      \<lparr> frame_number = 2, time = 2 / 5, dance_file = Some ''a.pkl'', dance_frame = 2,
        intensity = ''medium'', pose_data = Some (NdArray [1, 1] [Num 3]) \<rparr>,
      \<lparr> frame_number = 3, time = 3 / 5, dance_file = Some ''a.pkl'', dance_frame = 3,
        intensity = ''medium'', pose_data = None \<rparr>,
      \<lparr> frame_number = 4, time = 4 / 5, dance_file = Some ''a.pkl'', dance_frame = 4,
        intensity = ''medium'', pose_data = None \<rparr>]"
    by (simp add: flaky_sample emit_frame_def flaky_resolve initial_locals_def py_int_def
        intensity_value_def Let_def)
  then show ?thesis using flaky_env_reads by simp
qed

lemma steady_run:
  "sample_dance_moves_for_song default_sampler steady_env (3 / 10) (7 / 10) 5 0 (Some 1) =
     [\<lparr> frame_number = 0, time = 0, dance_file = Some ''a.pkl'', dance_frame = 0,
        intensity = ''medium'', pose_data = Some (NdArray [1, 1] [Num 1]) \<rparr>,
      \<lparr> frame_number = 1, time = 1 / 5, dance_file = Some ''a.pkl'', dance_frame = 1,
        intensity = ''medium'', pose_data = Some (NdArray [1, 1] [Num 2]) \<rparr>,
      \<lparr> frame_number = 2, time = 2 / 5, dance_file = Some ''a.pkl'', dance_frame = 2,
        intensity = ''medium'', pose_data = Some (NdArray [1, 1] [Num 3]) \<rparr>,
      \<lparr> frame_number = 3, time = 3 / 5, dance_file = Some ''a.pkl'', dance_frame = 0,
        intensity = ''medium'', pose_data = Some (NdArray [1, 1] [Num 1]) \<rparr>,
      \<lparr> frame_number = 4, time = 4 / 5, dance_file = Some ''a.pkl'', dance_frame = 1,
        intensity = ''medium'', pose_data = Some (NdArray [1, 1] [Num 2]) \<rparr>]"
  unfolding steady_env_def
  by (simp add: flaky_sample emit_frame_def flaky_resolve initial_locals_def py_int_def
      intensity_value_def Let_def)

subsection \<open>Frame numbers and times\<close>

text \<open>
  Claim C10: in every sequence returned by \<open>sample_dance_moves_for_song\<close> the record at
  position \<open>j\<close> has frame number \<open>j\<close>, and the times do not decrease along the
  sequence. This holds for every frame delay, so for every non-negative one.
\<close>

theorem frame_numbers_and_times:
  "(\<forall>j < length (sample_dance_moves_for_song self env lo hi fr fd sd).
       frame_number (sample_dance_moves_for_song self env lo hi fr fd sd ! j) = j)
   \<and> sorted (map time (sample_dance_moves_for_song self env lo hi fr fd sd))"
proof -
  have main: "(\<forall>j < length (pose_sequence st'). frame_number (pose_sequence st' ! j) = j)
              \<and> sorted (map time (pose_sequence st'))"
    if "run_segments self env lo hi fr fd (zip (song_windows d) fs) initial_locals = Inr st'"
    for d fs st'
  proof (rule run_segments_ordered [OF that])
    show "\<forall>seg \<in> set (zip (song_windows d) fs). fst (fst seg) < snd (fst seg)"
    proof
      fix seg assume "seg \<in> set (zip (song_windows d) fs)"
      then have "(fst seg, snd seg) \<in> set (zip (song_windows d) fs)" by simp
      then have "fst seg \<in> set (song_windows d)" by (rule set_zip_leftD)
      then show "fst (fst seg) < snd (fst seg)" using song_windows_pos [of d] by blast
    qed
    show "sorted_wrt (\<lambda>a b. snd (fst a) \<le> fst (fst b)) (zip (song_windows d) fs)"
      using sorted_wrt_zip_fst [OF song_windows_chain, of d fs] .
  qed (simp_all add: initial_locals_def)
  show ?thesis
    unfolding sample_dance_moves_for_song_def
    using main
    by (auto split: option.splits sum.splits prod.splits simp del: run_segments.simps)
qed

theorem frame_numbers_and_times_witness:
  "map frame_number
     (sample_dance_moves_for_song default_sampler flaky_env (3 / 10) (7 / 10) 5 0 (Some 1))
     = [0, 1, 2, 3, 4]
   \<and> map time
     (sample_dance_moves_for_song default_sampler flaky_env (3 / 10) (7 / 10) 5 0 (Some 1))
     = [0, 1 / 5, 2 / 5, 3 / 5, 4 / 5]
   \<and> sorted (map time
     (sample_dance_moves_for_song default_sampler flaky_env (3 / 10) (7 / 10) 5 0 (Some 1)))"
  using frame_numbers_and_times [of default_sampler flaky_env "3 / 10" "7 / 10" 5 0 "Some 1"]
    flaky_run
  by simp

subsection \<open>The clip frame index\<close>

lemma resolve_loaded_index:
  "0 < num_frames_or_one raw \<Longrightarrow>
     fst (snd (resolve_loaded raw df0 cand)) = df0 mod int (num_frames_or_one raw)"
  by (simp add: resolve_loaded_def Let_def split: sum.splits option.splits)

lemma resolve_loaded_pose:
  "resolve_loaded raw df0 cand = (pd, df, c') \<Longrightarrow> pd \<noteq> None \<Longrightarrow>
     0 < num_frames_or_one raw"
  by (auto simp: resolve_loaded_def Let_def split: if_splits)

lemma mod_range: "0 < n \<Longrightarrow> 0 \<le> x mod int n \<and> x mod int n < int n"
  by simp

lemma resolve_pose_loaded:
  assumes "f \<noteq> []" and "load_keypoint_file env t f = Some raw" and "0 < num_frames_or_one raw"
  shows "fst (snd (fst (resolve_pose env t (Some f) df0 cand))) = df0 mod int (num_frames_or_one raw)"
  using assms by (simp add: resolve_pose_def resolve_loaded_index)

lemma resolve_pose_unloaded:
  assumes "f \<noteq> []" and "load_keypoint_file env t f = None"
  shows "resolve_pose env t (Some f) df0 cand = ((None, df0, cand), Suc t)"
  using assms by (simp add: resolve_pose_def)

lemma load_keypoint_file_Some:
  "load_keypoint_file env t f = Some raw \<Longrightarrow> keypoint_files env f = Some raw"
  by (simp add: load_keypoint_file_def split: if_splits)

lemma resolve_pose_wrapped:
  assumes "resolve_pose env t file df0 cand = ((pd, df, c'), t')" and "pd \<noteq> None"
  shows "\<exists>f raw. file = Some f \<and> keypoint_files env f = Some raw
           \<and> 0 \<le> df \<and> df < int (num_frames_or_one raw)"
proof -
  from assms obtain f raw where f: "file = Some f" "f \<noteq> []"
    and ld: "load_keypoint_file env t f = Some raw"
    and rl: "resolve_loaded raw df0 cand = (pd, df, c')"
    by (auto simp: resolve_pose_def split: option.splits if_splits)
  have n: "0 < num_frames_or_one raw" using resolve_loaded_pose [OF rl assms(2)] .
  have "df = df0 mod int (num_frames_or_one raw)"
    using resolve_loaded_index [OF n, of df0 cand] rl by simp
  then show ?thesis
    using f load_keypoint_file_Some [OF ld] mod_range [OF n, of df0] by simp
qed

lemma segment_frames_records:
  assumes step: "\<And>t file df0 cand r c' t'.
      resolve_pose env t file df0 cand = ((pose_data r, dance_frame r, c'), t') \<Longrightarrow>
      dance_file r = file \<Longrightarrow> Q r"
    and inv: "\<forall>r \<in> set (pose_sequence st). Q r"
  shows "\<forall>r \<in> set (pose_sequence (segment_frames env fr fd s0 i idxs st)). Q r"
  using inv
proof (induction idxs arbitrary: st)
  case Nil
  then show ?case by simp
next
  case (Cons k idxs)
  obtain r cand t where e: "emit_frame env fr fd s0 i k st =
       st\<lparr> pose_sequence := pose_sequence st @ [r],
           next_frame_number := Suc (next_frame_number st),
           candidate_pose := cand, io_pos := t \<rparr>"
     and r: "dance_file r = current_dance_file st"
            "resolve_pose env (io_pos st) (current_dance_file st)
               (py_int (current_dance_elapsed st * fr) + int k) (candidate_pose st)
              = ((pose_data r, dance_frame r, cand), t)"
    using emit_frame_record [of env fr fd s0 i k st] by blast
  have "Q r" using step [OF r(2) r(1)] .
  then have "\<forall>x \<in> set (pose_sequence (emit_frame env fr fd s0 i k st)). Q x"
    using Cons.prems e by simp
  from Cons.IH [OF this] show ?case by simp
qed

lemma run_segments_records:
  assumes step: "\<And>t file df0 cand r c' t'.
      resolve_pose env t file df0 cand = ((pose_data r, dance_frame r, c'), t') \<Longrightarrow>
      dance_file r = file \<Longrightarrow> Q r"
    and run: "run_segments self env lo hi fr fd segs st = Inr st'"
    and inv: "\<forall>r \<in> set (pose_sequence st). Q r"
  shows "\<forall>r \<in> set (pose_sequence st'). Q r"
  using run inv
proof (induction segs arbitrary: st)
  case Nil
  then show ?case by simp
next
  case (Cons seg segs)
  obtain s0 e0 na nb where seg: "seg = ((s0, e0), (na, nb))" by (metis prod.exhaust)
  from Cons.prems(1) obtain st1 where
    p1: "process_segment self env lo hi fr fd ((s0, e0), (na, nb)) st = Inr st1"
    and r1: "run_segments self env lo hi fr fd segs st1 = Inr st'"
    by (auto simp: seg split: sum.splits)
  from process_segment_split [OF p1] obtain st0 i where
    st0: "pose_sequence st0 = pose_sequence st"
         "pose_sequence st1 =
            pose_sequence (segment_frames env fr fd s0 i [0 ..< nat (py_int ((e0 - s0) * fr))] st0)"
    by blast
  have "\<forall>r \<in> set (pose_sequence st0). Q r" using Cons.prems(2) st0(1) by simp
  from segment_frames_records [of env Q, OF step this]
  have "\<forall>r \<in> set (pose_sequence st1). Q r" using st0(2) by simp
  from Cons.IH [OF r1 this] show ?case .
qed

lemma sample_records:
  assumes step: "\<And>t file df0 cand r c' t'.
      resolve_pose env t file df0 cand = ((pose_data r, dance_frame r, c'), t') \<Longrightarrow>
      dance_file r = file \<Longrightarrow> Q r"
  shows "\<forall>r \<in> set (sample_dance_moves_for_song self env lo hi fr fd sd). Q r"
proof -
  have "\<forall>r \<in> set (pose_sequence st'). Q r"
    if "Inr st' = run_segments self env lo hi fr fd segs initial_locals" for segs st'
    using run_segments_records [of env Q, OF step that [symmetric]] by (simp add: initial_locals_def)
  then show ?thesis
    unfolding sample_dance_moves_for_song_def
    by (auto split: option.splits sum.splits prod.splits simp del: run_segments.simps)
qed

text \<open>
  Claim C3 says that the emitted clip index lies in \<open>[0, frameCount)\<close> also for frames
  whose clip data fails to load. The index is wrapped only after the file has been read
  and its frame count is known. In a run over a clip of three frames whose reads fail
  from the sixth read on, the fourth output frame carries the raw index 3 and no pose.
\<close>

theorem clip_frame_index_counterexample:
  "keypoint_files flaky_env ''a.pkl'' = Some flaky_clip
   \<and> num_frames_of flaky_clip = Some 3
   \<and> sample_dance_moves_for_song default_sampler flaky_env (3 / 10) (7 / 10) 5 0 (Some 1) ! 3
       = \<lparr> frame_number = 3, time = 3 / 5, dance_file = Some ''a.pkl'', dance_frame = 3,
           intensity = ''medium'', pose_data = None \<rparr>
   \<and> \<not> (3 :: int) < 3"
  using flaky_run flaky_frames by (simp add: flaky_env_def)

text \<open>
  Claim C3 as amended: the raw index of an output frame is
  \<open>int(elapsed * frameRate) + frameOffsetWithinSegment\<close>; when the read of the clip file
  succeeds for that frame and the frame count is positive, the emitted index is the raw
  index modulo the frame count and lies in \<open>[0, frameCount)\<close>, also when fetching the
  frame then fails; when the read fails, the raw index is emitted unchanged with no pose.
  So in every returned sequence a record that carries a pose has its index inside the
  frame range of its clip, and when no read fails every record of a clip with a
  positive frame count does.
\<close>

theorem clip_frame_index:
  "(f \<noteq> [] \<and> load_keypoint_file env t f = Some raw \<and> 0 < num_frames_or_one raw \<longrightarrow>
      fst (snd (fst (resolve_pose env t (Some f) df0 cand))) = df0 mod int (num_frames_or_one raw)
      \<and> 0 \<le> df0 mod int (num_frames_or_one raw)
      \<and> df0 mod int (num_frames_or_one raw) < int (num_frames_or_one raw))
   \<and> (f \<noteq> [] \<and> load_keypoint_file env t f = None \<longrightarrow>
        resolve_pose env t (Some f) df0 cand = ((None, df0, cand), Suc t))
   \<and> (\<exists>r cand' t'. pose_sequence (emit_frame env fr fd s0 i k st) = pose_sequence st @ [r]
         \<and> resolve_pose env (io_pos st) (current_dance_file st)
              (py_int (current_dance_elapsed st * fr) + int k) (candidate_pose st)
             = ((pose_data r, dance_frame r, cand'), t'))
   \<and> (\<forall>r \<in> set (sample_dance_moves_for_song self env lo hi fr fd sd).
         pose_data r \<noteq> None \<longrightarrow>
         (\<exists>f raw. dance_file r = Some f \<and> keypoint_files env f = Some raw
            \<and> 0 \<le> dance_frame r \<and> dance_frame r < int (num_frames_or_one raw)))
   \<and> ((\<forall>t. read_ok env t) \<longrightarrow>
       (\<forall>r \<in> set (sample_dance_moves_for_song self env lo hi fr fd sd).
          \<forall>f raw. dance_file r = Some f \<and> f \<noteq> [] \<and> keypoint_files env f = Some raw
                    \<and> 0 < num_frames_or_one raw \<longrightarrow>
                  0 \<le> dance_frame r \<and> dance_frame r < int (num_frames_or_one raw)))"
proof -
  have a: "fst (snd (fst (resolve_pose env t (Some f) df0 cand))) = df0 mod int (num_frames_or_one raw)
      \<and> 0 \<le> df0 mod int (num_frames_or_one raw)
      \<and> df0 mod int (num_frames_or_one raw) < int (num_frames_or_one raw)"
    if "f \<noteq> []" "load_keypoint_file env t f = Some raw" "0 < num_frames_or_one raw"
    using resolve_pose_loaded [OF that] mod_range [OF that(3)] by simp
  have b: "resolve_pose env t (Some f) df0 cand = ((None, df0, cand), Suc t)"
    if "f \<noteq> []" "load_keypoint_file env t f = None"
    using resolve_pose_unloaded [OF that] .
  have c: "\<exists>r cand' t'. pose_sequence (emit_frame env fr fd s0 i k st) = pose_sequence st @ [r]
         \<and> resolve_pose env (io_pos st) (current_dance_file st)
              (py_int (current_dance_elapsed st * fr) + int k) (candidate_pose st)
             = ((pose_data r, dance_frame r, cand'), t')"
  proof -
    from emit_frame_record [of env fr fd s0 i k st] obtain r cand' t' where
      "emit_frame env fr fd s0 i k st =
         st\<lparr> pose_sequence := pose_sequence st @ [r],
             next_frame_number := Suc (next_frame_number st),
             candidate_pose := cand', io_pos := t' \<rparr>"
      "resolve_pose env (io_pos st) (current_dance_file st)
          (py_int (current_dance_elapsed st * fr) + int k) (candidate_pose st)
         = ((pose_data r, dance_frame r, cand'), t')"
      by blast
    then show ?thesis by (intro exI [of _ r] exI [of _ cand'] exI [of _ t']) simp
  qed
  have d: "\<forall>r \<in> set (sample_dance_moves_for_song self env lo hi fr fd sd).
         pose_data r \<noteq> None \<longrightarrow>
         (\<exists>f raw. dance_file r = Some f \<and> keypoint_files env f = Some raw
            \<and> 0 \<le> dance_frame r \<and> dance_frame r < int (num_frames_or_one raw))"
  proof (rule sample_records)
    fix t cf df0 cand r c' t'
    assume "resolve_pose env t cf df0 cand = ((pose_data r, dance_frame r, c'), t')"
      and "dance_file r = cf"
    then show "pose_data r \<noteq> None \<longrightarrow>
         (\<exists>f raw. dance_file r = Some f \<and> keypoint_files env f = Some raw
            \<and> 0 \<le> dance_frame r \<and> dance_frame r < int (num_frames_or_one raw))"
      using resolve_pose_wrapped by blast
  qed
  have e: "\<forall>r \<in> set (sample_dance_moves_for_song self env lo hi fr fd sd).
          \<forall>f raw. dance_file r = Some f \<and> f \<noteq> [] \<and> keypoint_files env f = Some raw
                    \<and> 0 < num_frames_or_one raw \<longrightarrow>
                  0 \<le> dance_frame r \<and> dance_frame r < int (num_frames_or_one raw)"
    if ok: "\<forall>t. read_ok env t"
  proof (rule sample_records)
    fix t cf df0 cand r c' t'
    assume rp: "resolve_pose env t cf df0 cand = ((pose_data r, dance_frame r, c'), t')"
      and df: "dance_file r = cf"
    show "\<forall>f raw. dance_file r = Some f \<and> f \<noteq> [] \<and> keypoint_files env f = Some raw
                    \<and> 0 < num_frames_or_one raw \<longrightarrow>
                  0 \<le> dance_frame r \<and> dance_frame r < int (num_frames_or_one raw)"
    proof (intro allI impI)
      fix f raw
      assume h: "dance_file r = Some f \<and> f \<noteq> [] \<and> keypoint_files env f = Some raw
                    \<and> 0 < num_frames_or_one raw"
      then have ld: "load_keypoint_file env t f = Some raw"
        using ok by (simp add: load_keypoint_file_def)
      have "dance_frame r = df0 mod int (num_frames_or_one raw)"
        using resolve_pose_loaded [of f env t raw df0 cand] h ld rp df by simp
      then show "0 \<le> dance_frame r \<and> dance_frame r < int (num_frames_or_one raw)"
        using h by simp
    qed
  qed
  show ?thesis using a b c d e by blast
qed

theorem clip_frame_index_witness:
  "load_keypoint_file steady_env 2 ''a.pkl'' = Some flaky_clip
   \<and> num_frames_or_one flaky_clip = 3
   \<and> fst (snd (fst (resolve_pose steady_env 2 (Some ''a.pkl'') 4 None))) = 1
   \<and> load_keypoint_file flaky_env 5 ''a.pkl'' = None
   \<and> resolve_pose flaky_env 5 (Some ''a.pkl'') 4 None = ((None, 4, None), 6)
   \<and> map dance_frame
       (sample_dance_moves_for_song default_sampler steady_env (3 / 10) (7 / 10) 5 0 (Some 1))
       = [0, 1, 2, 0, 1]
   \<and> map dance_frame
       (sample_dance_moves_for_song default_sampler flaky_env (3 / 10) (7 / 10) 5 0 (Some 1))
       = [0, 1, 2, 3, 4]"
proof -
  have l1: "load_keypoint_file steady_env 2 ''a.pkl'' = Some flaky_clip"
    by (simp add: load_keypoint_file_def steady_env_def flaky_env_def)
  have l2: "load_keypoint_file flaky_env 5 ''a.pkl'' = None"
    by (simp add: load_keypoint_file_def flaky_env_def)
  have n: "num_frames_or_one flaky_clip = 3"
    by (simp add: num_frames_or_one_def num_frames_of_def flaky_clip_def)
  have ok: "\<forall>t. read_ok steady_env t" by (simp add: steady_env_def)
  note a = clip_frame_index [of "''a.pkl''" steady_env 2 flaky_clip 4 None 5 0 0 MEDIUM 0
      initial_locals default_sampler "3 / 10" "7 / 10" "Some 1"]
  note b = clip_frame_index [of "''a.pkl''" flaky_env 5 flaky_clip 4 None 5 0 0 MEDIUM 0
      initial_locals default_sampler "3 / 10" "7 / 10" "Some 1"]
  have r1: "fst (snd (fst (resolve_pose steady_env 2 (Some ''a.pkl'') 4 None))) = 1"
    using a l1 n by simp
  have r2: "resolve_pose flaky_env 5 (Some ''a.pkl'') 4 None = ((None, 4, None), 6)"
    using b l2 by simp
  show ?thesis using l1 l2 n r1 r2 steady_run flaky_run by simp
qed

end
